theory Spec2Isabelle
  imports Complex_Main
begin

section \<open>The keyframe animation engine of animation.c\<close>

text \<open>
  A shallow embedding of \<^verbatim>\<open>src/animation.c\<close>: the keyframe store, the absolute
  start time of a keyframe, loading and saving, and the animation iterator.

  Conventions of the embedding.
  \<^item> A \<^verbatim>\<open>gdouble\<close> is a real number; infinities and NaN are not modelled. Seeking
    adds to \<open>time_after_keyframe\<close> and subtracts from it as the code does on doubles:
    the result is the exact one rounded to the nearest double (\<open>gdouble_add\<close> and
    \<open>gdouble_sub\<close> below). Comparisons of doubles are exact. The running total of the
    two scans over the store and the quotients are not rounded. A division whose divisor
    is zero, which would leave the finite numbers, is an error value of the model
    (\<open>NotFinite\<close>).
  \<^item> The GtkListStore behind \<^verbatim>\<open>self->model\<close> is the list of its rows. The code only
    appends rows and clears the store, so a row keeps its position for as long as it
    exists, and a \<^verbatim>\<open>GtkTreeIter\<close> is the position of the row it points at, or
    \<open>None\<close> once GTK has invalidated it.
  \<^item> A GTK call \<^verbatim>\<open>gboolean f(model, &iter)\<close> returns the pair of its result and
    the new content of \<open>iter\<close>.
  \<^item> Reading a row through an iterator that points at no row is undefined in C; the model
    returns the error \<open>InvalidTreeIter\<close> there.
  \<^item> \<^verbatim>\<open>g_return_if_fail\<close> is the macro as GLib compiles it by default: it logs a
    critical message and returns when its condition is false.
  \<^item> Objects are values: a function that writes through a pointer returns the new value,
    and two pointers never point at the same object.
\<close>

subsection \<open>Doubles\<close>

type_synonym gdouble = real

text \<open>Rounding to the nearest double, as IEEE 754 does after every operation: the real
  number is rounded to a multiple of the unit in the last place of its binade, that is to
  53 significant bits, a tie going to the even multiple. The range of the exponent is
  not bounded: overflow to an infinity is not modelled, and a difference of two doubles,
  which is exact when it is smaller than every normal double, is exact here too.\<close>

definition round_half_even :: "real \<Rightarrow> int" where
  "round_half_even x =
     (let f = \<lfloor>x\<rfloor> in
      if x - of_int f < 1 / 2 then f
      else if 1 / 2 < x - of_int f then f + 1
      else if even f then f else f + 1)"

definition round_gdouble :: "real \<Rightarrow> real" where
  "round_gdouble x =
     (if x = 0 then 0
      else (let ulp = 2 powi (\<lfloor>log 2 \<bar>x\<bar>\<rfloor> - 52)
            in ulp * of_int (round_half_even (x / ulp))))"

text \<open>The \<^verbatim>\<open>+\<close> and \<^verbatim>\<open>-\<close> of two doubles.\<close>

definition gdouble_add :: "gdouble \<Rightarrow> gdouble \<Rightarrow> gdouble" where
  "gdouble_add x y = round_gdouble (x + y)"

definition gdouble_sub :: "gdouble \<Rightarrow> gdouble \<Rightarrow> gdouble" where
  "gdouble_sub x y = round_gdouble (x - y)"

text \<open>Rounding keeps zero and the sign, and it is computed from the binade of its
  argument.\<close>

lemma round_half_even_of_int: "round_half_even (of_int n) = n"
  by (simp add: round_half_even_def)

lemma round_half_even_ge_floor: "\<lfloor>x\<rfloor> \<le> round_half_even x"
  by (simp add: round_half_even_def Let_def)

lemma round_half_even_le_floor: "round_half_even x \<le> \<lfloor>x\<rfloor> + 1"
  by (simp add: round_half_even_def Let_def)

lemma floor_log2_bounds:
  assumes "x \<noteq> 0"
  shows "2 powi \<lfloor>log 2 \<bar>x\<bar>\<rfloor> \<le> \<bar>x\<bar>" and "\<bar>x\<bar> < 2 powi (\<lfloor>log 2 \<bar>x\<bar>\<rfloor> + 1)"
proof -
  have pos: "0 < \<bar>x\<bar>" using assms by simp
  have "\<lfloor>log 2 \<bar>x\<bar>\<rfloor> = \<lfloor>log 2 \<bar>x\<bar>\<rfloor>" ..
  then have "2 powr of_int \<lfloor>log 2 \<bar>x\<bar>\<rfloor> \<le> \<bar>x\<bar> \<and> \<bar>x\<bar> < 2 powr (of_int \<lfloor>log 2 \<bar>x\<bar>\<rfloor> + 1)"
    using floor_log_eq_powr_iff[OF pos, of 2 "\<lfloor>log 2 \<bar>x\<bar>\<rfloor>"] by simp
  then show "2 powi \<lfloor>log 2 \<bar>x\<bar>\<rfloor> \<le> \<bar>x\<bar>" and "\<bar>x\<bar> < 2 powi (\<lfloor>log 2 \<bar>x\<bar>\<rfloor> + 1)"
    using powr_real_of_int'[of 2 "\<lfloor>log 2 \<bar>x\<bar>\<rfloor>"] powr_real_of_int'[of 2 "\<lfloor>log 2 \<bar>x\<bar>\<rfloor> + 1"]
    by simp_all
qed

lemma floor_log2_eq:
  assumes "2 powi E \<le> \<bar>x\<bar>" and "\<bar>x\<bar> < 2 powi (E + 1)"
  shows "\<lfloor>log 2 \<bar>x\<bar>\<rfloor> = E"
proof -
  have pos: "0 < \<bar>x\<bar>" using assms(1) zero_less_power_int[of "2::real" E] by linarith
  have "2 powr of_int E \<le> \<bar>x\<bar> \<and> \<bar>x\<bar> < 2 powr (of_int E + 1)"
    using assms powr_real_of_int'[of 2 E] powr_real_of_int'[of 2 "E + 1"] by simp
  then show ?thesis using floor_log_eq_powr_iff[OF pos, of 2 E] by simp
qed

lemma round_gdouble_zero: "round_gdouble 0 = 0"
  by (simp add: round_gdouble_def)

lemma round_gdouble_pos:
  assumes "0 < x"
  shows "0 < round_gdouble x"
proof -
  define E where "E = \<lfloor>log 2 \<bar>x\<bar>\<rfloor>"
  define ulp :: real where "ulp = 2 powi (E - 52)"
  have ulp: "0 < ulp" by (simp add: ulp_def)
  have "2 powi E \<le> x" using floor_log2_bounds(1)[of x] assms by (simp add: E_def)
  moreover have "(2::real) powi E = 2 powi (E - 52) * 2 powi 52"
    using power_int_add[of "2::real" "E - 52" 52] by simp
  ultimately have "ulp * 2 ^ 52 \<le> x" by (simp add: ulp_def)
  then have "2 ^ 52 \<le> x / ulp" using ulp by (simp add: field_simps)
  then have "(1::real) \<le> x / ulp" by simp
  then have "1 \<le> \<lfloor>x / ulp\<rfloor>" by simp
  then have "1 \<le> round_half_even (x / ulp)"
    using round_half_even_ge_floor[of "x / ulp"] by linarith
  then have "0 < ulp * of_int (round_half_even (x / ulp))" using ulp by simp
  then show ?thesis using assms by (simp add: round_gdouble_def E_def ulp_def Let_def)
qed

lemma round_gdouble_neg:
  assumes "x < 0"
  shows "round_gdouble x < 0"
proof -
  define E where "E = \<lfloor>log 2 \<bar>x\<bar>\<rfloor>"
  define ulp :: real where "ulp = 2 powi (E - 52)"
  have ulp: "0 < ulp" by (simp add: ulp_def)
  have "2 powi E \<le> - x" using floor_log2_bounds(1)[of x] assms by (simp add: E_def)
  moreover have "(2::real) powi E = 2 powi (E - 52) * 2 powi 52"
    using power_int_add[of "2::real" "E - 52" 52] by simp
  ultimately have "ulp * 2 ^ 52 \<le> - x" by (simp add: ulp_def)
  then have "x / ulp \<le> - (2 ^ 52)" using ulp by (simp add: field_simps)
  then have "x / ulp \<le> - 2" by simp
  then have "\<lfloor>x / ulp\<rfloor> \<le> - 2" by (simp add: floor_le_iff)
  then have "round_half_even (x / ulp) < 0"
    using round_half_even_le_floor[of "x / ulp"] by linarith
  then have "ulp * of_int (round_half_even (x / ulp)) < 0"
    using ulp by (simp add: mult_pos_neg)
  then show ?thesis using assms by (simp add: round_gdouble_def E_def ulp_def Let_def)
qed

lemma round_gdouble_nonneg: "0 \<le> x \<Longrightarrow> 0 \<le> round_gdouble x"
  using round_gdouble_pos[of x] by (cases "x = 0") (simp_all add: round_gdouble_zero less_eq_real_def)

lemma round_gdouble_eval:
  assumes "2 powi E \<le> \<bar>x\<bar>" and "\<bar>x\<bar> < 2 powi (E + 1)"
    and "round_half_even (x / 2 powi (E - 52)) = n"
  shows "round_gdouble x = 2 powi (E - 52) * of_int n"
proof -
  have "0 < \<bar>x\<bar>" using assms(1) zero_less_power_int[of "2::real" E] by linarith
  then have "x \<noteq> 0" by simp
  then show ?thesis using floor_log2_eq[OF assms(1,2)] assms(3)
    by (simp add: round_gdouble_def Let_def)
qed

lemma round_gdouble_exact:
  assumes "2 powi E \<le> \<bar>x\<bar>" and "\<bar>x\<bar> < 2 powi (E + 1)"
    and "x / 2 powi (E - 52) = of_int n"
  shows "round_gdouble x = x"
proof -
  have "round_half_even (x / 2 powi (E - 52)) = n"
    using assms(3) by (simp add: round_half_even_of_int)
  from round_gdouble_eval[OF assms(1,2) this]
  have "round_gdouble x = 2 powi (E - 52) * (x / 2 powi (E - 52))" using assms(3) by simp
  then show ?thesis by simp
qed

lemma gdouble_sub_nonneg: "y \<le> x \<Longrightarrow> 0 \<le> gdouble_sub x y"
  by (simp add: gdouble_sub_def round_gdouble_nonneg)

subsection \<open>The list store\<close>

type_synonym GtkTreeIter = "nat option"

text \<open>One row of the store: the five columns declared in \<^verbatim>\<open>animation_init\<close>.
  A pointer column that is \<^verbatim>\<open>NULL\<close> is \<open>None\<close>.\<close>

record ('img, 'sp) keyframe =
  model_thumbnail :: "'img option"
  model_params :: "string option"
  model_duration :: gdouble
  model_spline :: "'sp option"
  model_iter :: GtkTreeIter

record ('img, 'sp) Animation =
  model :: "('img, 'sp) keyframe list"

datatype error = InvalidTreeIter | NotFinite

definition gtk_tree_model_get_iter_first :: "'r list \<Rightarrow> bool \<times> GtkTreeIter" where
  "gtk_tree_model_get_iter_first m = (if m = [] then (False, None) else (True, Some 0))"

definition gtk_tree_model_iter_next :: "'r list \<Rightarrow> GtkTreeIter \<Rightarrow> bool \<times> GtkTreeIter" where
  "gtk_tree_model_iter_next m it =
     (case it of
        None \<Rightarrow> (False, None)
      | Some i \<Rightarrow> if Suc i < length m then (True, Some (Suc i)) else (False, None))"

definition gtk_tree_model_get :: "'r list \<Rightarrow> GtkTreeIter \<Rightarrow> 'r option" where
  "gtk_tree_model_get m it =
     (case it of
        None \<Rightarrow> None
      | Some i \<Rightarrow> if i < length m then Some (m ! i) else None)"

text \<open>\<^verbatim>\<open>gtk_list_store_append\<close> adds an empty row and points the iterator at it.\<close>

definition empty_row :: "('img, 'sp) keyframe" where
  "empty_row = \<lparr>model_thumbnail = None, model_params = None, model_duration = 0,
                model_spline = None, model_iter = None\<rparr>"

definition gtk_list_store_append ::
  "('img, 'sp) keyframe list \<Rightarrow> ('img, 'sp) keyframe list \<times> GtkTreeIter" where
  "gtk_list_store_append m = (m @ [empty_row], Some (length m))"

text \<open>\<^verbatim>\<open>gtk_list_store_set\<close> changes columns of the row under the iterator; GTK
  rejects an iterator that points at no row and changes nothing.\<close>

definition gtk_list_store_set ::
  "'r list \<Rightarrow> GtkTreeIter \<Rightarrow> ('r \<Rightarrow> 'r) \<Rightarrow> 'r list" where
  "gtk_list_store_set m it f =
     (case it of
        None \<Rightarrow> m
      | Some i \<Rightarrow> if i < length m then m[i := f (m ! i)] else m)"

definition gtk_list_store_clear :: "'r list \<Rightarrow> 'r list" where
  "gtk_list_store_clear m = []"

subsection \<open>Keyframe manipulation\<close>

definition animation_clear :: "('img, 'sp) Animation \<Rightarrow> ('img, 'sp) Animation" where
  "animation_clear self = self\<lparr>model := gtk_list_store_clear (model self)\<rparr>"

text \<open>\<^verbatim>\<open>animation_keyframe_get_time\<close>: the loop, with \<open>(valid, my_iter)\<close> and the
  running \<open>total\<close> (here \<open>tot\<close>) as its state. A \<open>valid\<close> iterator always comes from
  \<open>gtk_tree_model_get_iter_first\<close> or \<open>gtk_tree_model_iter_next\<close>, so it points at a row;
  the branch for a row that does not exist is there to make the function total and is not
  reached from \<open>animation_keyframe_get_time\<close>.\<close>

function get_time_loop ::
  "('img, 'sp) keyframe list \<Rightarrow> GtkTreeIter \<Rightarrow> bool \<times> GtkTreeIter \<Rightarrow> gdouble \<Rightarrow> gdouble" where
  "get_time_loop m iter (valid, my_iter) tot =
     (if \<not> valid then tot
      else if my_iter = iter then tot
      else (case gtk_tree_model_get m my_iter of
              None \<Rightarrow> tot
            | Some row \<Rightarrow>
                get_time_loop m iter (gtk_tree_model_iter_next m my_iter)
                  (tot + model_duration row)))"
  by pat_completeness auto
termination
  by (relation "measure (\<lambda>(m, iter, (valid, my_iter), tot).
        case my_iter of None \<Rightarrow> 0 | Some i \<Rightarrow> Suc (length m) - i)")
     (auto simp: gtk_tree_model_get_def gtk_tree_model_iter_next_def
           split: option.splits if_splits)

declare get_time_loop.simps [simp del]

definition animation_keyframe_get_time ::
  "('img, 'sp) Animation \<Rightarrow> GtkTreeIter \<Rightarrow> gdouble" where
  "animation_keyframe_get_time self iter =
     get_time_loop (model self) iter (gtk_tree_model_get_iter_first (model self)) 0"

subsection \<open>Persistence\<close>

text \<open>Bytes are \<open>char\<close>s, and a buffer is a \<open>string\<close>. A C string stored in the
  model ends at its first NUL, if it has one.\<close>

definition strlen :: "string \<Rightarrow> nat" where
  "strlen s = length (takeWhile (\<lambda>c. c \<noteq> CHR 0x00) s)"

definition g_strdup :: "string \<Rightarrow> string" where
  "g_strdup s = takeWhile (\<lambda>c. c \<noteq> CHR 0x00) s"

type_synonym ChunkType = string

text \<open>Modelled from the spec: the macro \<^verbatim>\<open>CHUNK_TYPE\<close> of chunked-file.h is not among
  the sources; the spec has the type of a chunk be a tag of four ASCII characters.\<close>

definition CHUNK_TYPE :: "char \<Rightarrow> char \<Rightarrow> char \<Rightarrow> char \<Rightarrow> ChunkType" where
  "CHUNK_TYPE c1 c2 c3 c4 = [c1, c2, c3, c4]"

definition FILE_SIGNATURE :: string where
  "FILE_SIGNATURE = ''de Jong Explorer Animation'' @ [CHR 0x0A, CHR 0x0D, CHR 0xFF, CHR 0x0A]"

definition CHUNK_KEYFRAME_START :: ChunkType where
  "CHUNK_KEYFRAME_START = CHUNK_TYPE CHR ''K'' CHR ''f'' CHR ''r'' CHR ''S''"

definition CHUNK_KEYFRAME_END :: ChunkType where
  "CHUNK_KEYFRAME_END = CHUNK_TYPE CHR ''K'' CHR ''f'' CHR ''r'' CHR ''E''"

definition CHUNK_DE_JONG_PARAMS :: ChunkType where
  "CHUNK_DE_JONG_PARAMS = CHUNK_TYPE CHR ''d'' CHR ''j'' CHR ''P'' CHR ''R''"

definition CHUNK_THUMBNAIL :: ChunkType where
  "CHUNK_THUMBNAIL = CHUNK_TYPE CHR ''d'' CHR ''j'' CHR ''T'' CHR ''H''"

definition CHUNK_SPLINE :: ChunkType where
  "CHUNK_SPLINE = CHUNK_TYPE CHR ''s'' CHR ''p'' CHR ''l'' CHR ''C''"

definition CHUNK_DURATION :: ChunkType where
  "CHUNK_DURATION = CHUNK_TYPE CHR ''d'' CHR ''u'' CHR ''r'' CHR ''a''"

text \<open>The content of a chunked file, as the spec describes it: the signature at its
  start, then the chunks in file order, each a type and a payload whose length is the
  chunk's length.\<close>

record chunk =
  chunk_type :: ChunkType
  chunk_data :: string

record chunked_file =
  file_signature :: string
  file_chunks :: "chunk list"

definition empty_file :: chunked_file where
  "empty_file = \<lparr>file_signature = [], file_chunks = []\<rparr>"

text \<open>Modelled from the spec: chunked-file.c is not among the sources. The signature is
  written at the start of the file.\<close>

definition chunked_file_write_signature :: "chunked_file \<Rightarrow> string \<Rightarrow> chunked_file" where
  "chunked_file_write_signature f signature = f\<lparr>file_signature := file_signature f @ signature\<rparr>"

text \<open>Modelled from the spec: chunked-file.c is not among the sources. Reading the
  signature fails if the bytes do not match the expected ones exactly.\<close>

definition chunked_file_read_signature :: "chunked_file \<Rightarrow> string \<Rightarrow> bool" where
  "chunked_file_read_signature f expected = (file_signature f = expected)"

text \<open>Modelled from the spec: chunked-file.c is not among the sources. A chunk of the
  given type is added after the others, its payload the first \<open>length\<close> bytes of the
  data; a \<^verbatim>\<open>NULL\<close> data pointer is the empty buffer.\<close>

definition chunked_file_write_chunk ::
  "chunked_file \<Rightarrow> ChunkType \<Rightarrow> nat \<Rightarrow> string \<Rightarrow> chunked_file" where
  "chunked_file_write_chunk f type len data =
     f\<lparr>file_chunks := file_chunks f @ [\<lparr>chunk_type = type, chunk_data = take len data\<rparr>]\<rparr>"

text \<open>Modelled from the spec: chunked-file.c is not among the sources. Each chunk is
  returned in file order, whatever its type; \<open>None\<close> at the end of the file.\<close>

definition chunked_file_read_chunk :: "chunked_file \<Rightarrow> (chunk \<times> chunked_file) option" where
  "chunked_file_read_chunk f =
     (case file_chunks f of
        [] \<Rightarrow> None
      | c # cs \<Rightarrow> Some (c, f\<lparr>file_chunks := cs\<rparr>))"

text \<open>The collaborators of loading and saving that live outside this file: the spline
  code (spline.c), the PNG codec of gdk-pixbuf, and the object representation of a
  \<^verbatim>\<open>gdouble\<close> in memory, which \<^verbatim>\<open>(guchar*) &duration\<close> reads and
  \<^verbatim>\<open>*(gdouble*) data\<close> reads back. \<open>gdk_pixbuf_loader\<close> stands for writing the
  data to a new loader, closing it and getting its pixbuf.\<close>

record ('img, 'sp) file_ops =
  spline_template_smooth :: 'sp
  spline_serialize :: "'sp \<Rightarrow> string"
  spline_unserialize :: "string \<Rightarrow> 'sp option"
  gdk_pixbuf_save_to_buffer :: "'img \<Rightarrow> string option"
  gdk_pixbuf_loader :: "string \<Rightarrow> 'img option"
  bytes_of_gdouble :: "gdouble \<Rightarrow> string"
  gdouble_of_bytes :: "string \<Rightarrow> gdouble"

definition sizeof_gdouble :: nat where
  "sizeof_gdouble = 8"

definition animation_keyframe_append_default ::
  "('img, 'sp) file_ops \<Rightarrow> ('img, 'sp) Animation \<Rightarrow> ('img, 'sp) Animation \<times> GtkTreeIter" where
  "animation_keyframe_append_default ops self =
     (let (m, iter) = gtk_list_store_append (model self)
      in (self\<lparr>model := gtk_list_store_set m iter
                   (\<lambda>row. row\<lparr>model_iter := iter, model_duration := 5.0,
                               model_spline := Some (spline_template_smooth ops)\<rparr>)\<rparr>,
          iter))"

text \<open>What the code logs: the critical message of a failed \<^verbatim>\<open>g_return_if_fail\<close>,
  the warning about a duration chunk of the wrong size (with the two sizes it prints), and
  the warning of \<^verbatim>\<open>chunked_file_warn_unknown_type\<close>.\<close>

datatype log_entry =
  Critical
| DurationSizeWarning nat nat
| UnknownTypeWarning ChunkType

text \<open>Modelled from the spec: chunked-file.c is not among the sources. An unknown chunk
  type is logged and nothing else happens.\<close>

definition chunked_file_warn_unknown_type :: "ChunkType \<Rightarrow> log_entry list" where
  "chunked_file_warn_unknown_type type = [UnknownTypeWarning type]"

text \<open>The body of the loop of \<^verbatim>\<open>animation_load_file\<close>: the \<^verbatim>\<open>switch\<close> on the
  type of one chunk. Its state is the animation and the local variable \<open>iter\<close>; it
  returns the new state and what it has logged.\<close>

definition load_chunk ::
  "('img, 'sp) file_ops \<Rightarrow> ('img, 'sp) Animation \<times> GtkTreeIter \<Rightarrow> chunk \<Rightarrow>
     (('img, 'sp) Animation \<times> GtkTreeIter) \<times> log_entry list" where
  "load_chunk ops st c =
     (let self = fst st; iter = snd st;
          type = chunk_type c; len = length (chunk_data c); data = chunk_data c in
      if type = CHUNK_KEYFRAME_START then
        (animation_keyframe_append_default ops self, [])
      else if type = CHUNK_KEYFRAME_END then
        ((self, iter), [])
      else if type = CHUNK_DE_JONG_PARAMS then
        (let tempstring = data @ [CHR 0x00] in
         ((self\<lparr>model := gtk_list_store_set (model self) iter
                     (\<lambda>row. row\<lparr>model_params := Some (g_strdup tempstring)\<rparr>)\<rparr>, iter), []))
      else if type = CHUNK_THUMBNAIL then
        ((self\<lparr>model := gtk_list_store_set (model self) iter
                    (\<lambda>row. row\<lparr>model_thumbnail := gdk_pixbuf_loader ops data\<rparr>)\<rparr>, iter), [])
      else if type = CHUNK_DURATION then
        (if len = sizeof_gdouble then
           ((self\<lparr>model := gtk_list_store_set (model self) iter
                       (\<lambda>row. row\<lparr>model_duration := gdouble_of_bytes ops data\<rparr>)\<rparr>, iter), [])
         else
           ((self, iter), [DurationSizeWarning len sizeof_gdouble]))
      else if type = CHUNK_SPLINE then
        ((self\<lparr>model := gtk_list_store_set (model self) iter
                    (\<lambda>row. row\<lparr>model_spline := spline_unserialize ops data\<rparr>)\<rparr>, iter), [])
      else
        ((self, iter), chunked_file_warn_unknown_type type))"

function load_loop ::
  "('img, 'sp) file_ops \<Rightarrow> ('img, 'sp) Animation \<times> GtkTreeIter \<Rightarrow> chunked_file \<Rightarrow>
     (('img, 'sp) Animation \<times> GtkTreeIter) \<times> log_entry list" where
  "load_loop ops st f =
     (case chunked_file_read_chunk f of
        None \<Rightarrow> (st, [])
      | Some (c, f') \<Rightarrow>
          (let (st1, log1) = load_chunk ops st c;
               (st2, log2) = load_loop ops st1 f'
           in (st2, log1 @ log2)))"
  by pat_completeness auto
termination
  by (relation "measure (\<lambda>(ops, st, f). length (file_chunks f))")
     (auto simp: chunked_file_read_chunk_def split: list.splits)

declare load_loop.simps [simp del]

text \<open>\<^verbatim>\<open>animation_load_file\<close>. The argument \<open>f\<close> is the result of
  \<^verbatim>\<open>fopen(filename, "rb")\<close>: \<open>None\<close> when the file cannot be opened. The local
  variable \<open>iter\<close> is not initialised in C; the store has just been cleared when the loop
  starts, so it points at no row, and it starts as \<open>None\<close>.\<close>

definition animation_load_file ::
  "('img, 'sp) file_ops \<Rightarrow> ('img, 'sp) Animation \<Rightarrow> chunked_file option \<Rightarrow>
     ('img, 'sp) Animation \<times> log_entry list" where
  "animation_load_file ops self f =
     (case f of
        None \<Rightarrow> (self, [Critical])
      | Some file \<Rightarrow>
          if \<not> chunked_file_read_signature file FILE_SIGNATURE then (self, [Critical])
          else
            (let self1 = animation_clear self;
                 ((self2, iter), log) = load_loop ops (self1, None) file
             in (self2, log)))"

text \<open>The body of the loop of \<^verbatim>\<open>animation_save_file\<close>: the chunks of one
  keyframe.\<close>

definition save_keyframe ::
  "('img, 'sp) file_ops \<Rightarrow> ('img, 'sp) keyframe \<Rightarrow> chunked_file \<Rightarrow> chunked_file" where
  "save_keyframe ops row f =
     (let params = model_params row; thumb_pixbuf = model_thumbnail row;
          duration = model_duration row; spline = model_spline row;
          f1 = chunked_file_write_chunk f CHUNK_KEYFRAME_START 0 [];
          f2 = (case params of
                  None \<Rightarrow> f1
                | Some p \<Rightarrow> chunked_file_write_chunk f1 CHUNK_DE_JONG_PARAMS (strlen p) p);
          f3 = (case thumb_pixbuf of
                  None \<Rightarrow> f2
                | Some t \<Rightarrow>
                    (case gdk_pixbuf_save_to_buffer ops t of
                       None \<Rightarrow> f2
                     | Some buffer \<Rightarrow>
                         chunked_file_write_chunk f2 CHUNK_THUMBNAIL (length buffer) buffer));
          f4 = chunked_file_write_chunk f3 CHUNK_DURATION sizeof_gdouble
                 (bytes_of_gdouble ops duration);
          f5 = (case spline of
                  None \<Rightarrow> f4
                | Some s \<Rightarrow>
                    (let buffer = spline_serialize ops s
                     in chunked_file_write_chunk f4 CHUNK_SPLINE (length buffer) buffer))
      in chunked_file_write_chunk f5 CHUNK_KEYFRAME_END 0 [])"

function save_loop ::
  "('img, 'sp) file_ops \<Rightarrow> ('img, 'sp) keyframe list \<Rightarrow> bool \<times> GtkTreeIter \<Rightarrow>
     chunked_file \<Rightarrow> chunked_file" where
  "save_loop ops m (valid, iter) f =
     (if \<not> valid then f
      else (case gtk_tree_model_get m iter of
              None \<Rightarrow> f
            | Some row \<Rightarrow>
                save_loop ops m (gtk_tree_model_iter_next m iter) (save_keyframe ops row f)))"
  by pat_completeness auto
termination
  by (relation "measure (\<lambda>(ops, m, (valid, iter), f).
        case iter of None \<Rightarrow> 0 | Some i \<Rightarrow> Suc (length m) - i)")
     (auto simp: gtk_tree_model_get_def gtk_tree_model_iter_next_def
           split: option.splits if_splits)

declare save_loop.simps [simp del]

text \<open>\<^verbatim>\<open>animation_save_file\<close>. The argument says whether
  \<^verbatim>\<open>fopen(filename, "wb")\<close> has opened the file, which is then empty; the result is
  the content of the file written, \<open>None\<close> when nothing is written.\<close>

definition animation_save_file ::
  "('img, 'sp) file_ops \<Rightarrow> ('img, 'sp) Animation \<Rightarrow> bool \<Rightarrow> chunked_file option" where
  "animation_save_file ops self opened =
     (if \<not> opened then None
      else
        (let f = chunked_file_write_signature empty_file FILE_SIGNATURE
         in Some (save_loop ops (model self) (gtk_tree_model_get_iter_first (model self)) f)))"

subsection \<open>Animation iterators\<close>

function get_length_loop ::
  "('img, 'sp) keyframe list \<Rightarrow> bool \<times> GtkTreeIter \<Rightarrow> gdouble \<Rightarrow> gdouble" where
  "get_length_loop m (valid, iter) tot =
     (if \<not> valid then tot
      else (case gtk_tree_model_get m iter of
              None \<Rightarrow> tot
            | Some row \<Rightarrow>
                get_length_loop m (gtk_tree_model_iter_next m iter)
                  (tot + model_duration row)))"
  by pat_completeness auto
termination
  by (relation "measure (\<lambda>(m, (valid, iter), tot).
        case iter of None \<Rightarrow> 0 | Some i \<Rightarrow> Suc (length m) - i)")
     (auto simp: gtk_tree_model_get_def gtk_tree_model_iter_next_def
           split: option.splits if_splits)

declare get_length_loop.simps [simp del]

definition animation_get_length :: "('img, 'sp) Animation \<Rightarrow> gdouble" where
  "animation_get_length self =
     get_length_loop (model self) (gtk_tree_model_get_iter_first (model self)) 0"

record AnimationIter =
  valid :: bool
  keyframe :: GtkTreeIter
  absolute_time :: gdouble
  time_after_keyframe :: gdouble

definition animation_iter_get_first ::
  "('img, 'sp) Animation \<Rightarrow> AnimationIter \<Rightarrow> AnimationIter" where
  "animation_iter_get_first self iter =
     (let (v, k) = gtk_tree_model_get_iter_first (model self)
      in iter\<lparr>valid := v, keyframe := k, absolute_time := 0, time_after_keyframe := 0\<rparr>)"

text \<open>One pass through the \<^verbatim>\<open>while (iter->valid)\<close> loop of
  \<^verbatim>\<open>animation_iter_seek_relative\<close>: the loop test and the loop body. \<open>Again\<close> is
  the iterator with which the loop goes round once more, \<open>Done\<close> is the result with which
  it is left.\<close>

datatype seek_pass = Again AnimationIter | Done "error + AnimationIter"

definition seek_iteration :: "('img, 'sp) Animation \<Rightarrow> AnimationIter \<Rightarrow> seek_pass" where
  "seek_iteration self iter =
     (if \<not> valid iter then Done (Inr iter)
      else (case gtk_tree_model_get (model self) (keyframe iter) of
              None \<Rightarrow> Done (Inl InvalidTreeIter)
            | Some row \<Rightarrow>
               (let keyframe_duration = model_duration row in
                if time_after_keyframe iter \<ge> keyframe_duration then
                  (let (v, k) = gtk_tree_model_iter_next (model self) (keyframe iter)
                   in Again (iter\<lparr>valid := v, keyframe := k,
                        time_after_keyframe :=
                          gdouble_sub (time_after_keyframe iter) keyframe_duration\<rparr>))
                else if time_after_keyframe iter < 0 then
                  Again (animation_iter_get_first self iter)
                else Done (Inr iter))))"

text \<open>The measure of the loop: a pass that skips to the next keyframe leaves
  \<open>time_after_keyframe\<close> at least 0 (the difference is at least 0, and so is the double
  it rounds to), and a reset leaves it 0, so the reset branch is taken at most once and
  every other pass moves forward in the store.\<close>

definition seek_measure :: "('img, 'sp) Animation \<Rightarrow> AnimationIter \<Rightarrow> nat" where
  "seek_measure self iter =
     (if \<not> valid iter then 0
      else (if time_after_keyframe iter < 0 then Suc (length (model self)) else 0)
           + (case keyframe iter of
                None \<Rightarrow> 1
              | Some i \<Rightarrow> Suc (length (model self) - i)))"

lemma gdouble_sub_not_neg: "y \<le> x \<Longrightarrow> \<not> gdouble_sub x y < 0"
  using gdouble_sub_nonneg[of y x] by simp

lemma seek_iteration_decreases:
  "seek_iteration self iter = Again iter' \<Longrightarrow> seek_measure self iter' < seek_measure self iter"
  by (auto simp: seek_iteration_def seek_measure_def Let_def animation_iter_get_first_def
        gtk_tree_model_get_def gtk_tree_model_iter_next_def gtk_tree_model_get_iter_first_def
        gdouble_sub_not_neg
      split: if_splits option.splits)

function seek_loop ::
  "('img, 'sp) Animation \<Rightarrow> AnimationIter \<Rightarrow> error + AnimationIter" where
  "seek_loop self iter =
     (case seek_iteration self iter of
        Done r \<Rightarrow> r
      | Again iter' \<Rightarrow> seek_loop self iter')"
  by pat_completeness auto
termination
  by (relation "measure (\<lambda>(self, iter). seek_measure self iter)")
     (auto simp: seek_iteration_decreases)

declare seek_loop.simps [simp del]

definition animation_iter_seek_relative ::
  "('img, 'sp) Animation \<Rightarrow> AnimationIter \<Rightarrow> gdouble \<Rightarrow> error + AnimationIter" where
  "animation_iter_seek_relative self iter delta_time =
     seek_loop self
       (iter\<lparr>time_after_keyframe := gdouble_add (time_after_keyframe iter) delta_time\<rparr>)"

definition animation_iter_seek ::
  "('img, 'sp) Animation \<Rightarrow> AnimationIter \<Rightarrow> gdouble \<Rightarrow> error + AnimationIter" where
  "animation_iter_seek self iter absolute_time' =
     animation_iter_seek_relative self (animation_iter_get_first self iter) absolute_time'"

text \<open>The loop again, with a bound on the number of passes: \<open>None\<close> when the loop
  has not been left after that many passes.\<close>

fun seek_loop_fuel ::
  "nat \<Rightarrow> ('img, 'sp) Animation \<Rightarrow> AnimationIter \<Rightarrow> (error + AnimationIter) option" where
  "seek_loop_fuel 0 self iter = None"
| "seek_loop_fuel (Suc n) self iter =
     (case seek_iteration self iter of
        Done r \<Rightarrow> Some r
      | Again iter' \<Rightarrow> seek_loop_fuel n self iter')"

text \<open>The collaborators of \<^verbatim>\<open>animation_iter_load_dejong\<close> live in de-jong.c and
  spline.c, outside this file; they are parameters of the model. A \<^verbatim>\<open>DeJong\<close>
  object is a value of type \<open>'dj\<close>, and a function that changes an object in place
  returns the changed object.\<close>

record ('dj, 'sp) dejong_ops =
  de_jong_new :: 'dj
  de_jong_load_string :: "'dj \<Rightarrow> string option \<Rightarrow> 'dj"
  spline_solve_and_eval :: "'sp option \<Rightarrow> gdouble \<Rightarrow> gdouble"
  de_jong_interpolate_linear :: "'dj \<Rightarrow> gdouble \<Rightarrow> 'dj \<times> 'dj \<Rightarrow> 'dj"

record 'dj DeJongPair =
  pair_a :: 'dj
  pair_b :: 'dj

text \<open>Division of doubles: \<open>None\<close> where the divisor is zero and the quotient is an
  infinity or NaN.\<close>

definition fdiv :: "gdouble \<Rightarrow> gdouble \<Rightarrow> gdouble option" where
  "fdiv x y = (if y = 0 then None else Some (x / y))"

definition animation_keyframe_load_dejong ::
  "('dj, 'sp) dejong_ops \<Rightarrow> ('img, 'sp) Animation \<Rightarrow> GtkTreeIter \<Rightarrow> 'dj \<Rightarrow> error + 'dj" where
  "animation_keyframe_load_dejong ops self iter dejong =
     (case gtk_tree_model_get (model self) iter of
        None \<Rightarrow> Inl InvalidTreeIter
      | Some row \<Rightarrow> Inr (de_jong_load_string ops dejong (model_params row)))"

text \<open>\<^verbatim>\<open>animation_iter_load_dejong\<close> returns the new state of the object
  \<open>dejong\<close>. When there is no next keyframe, \<open>pair.b\<close> is the object \<open>pair.a\<close>
  itself.\<close>

definition animation_iter_load_dejong ::
  "('dj, 'sp) dejong_ops \<Rightarrow> ('img, 'sp) Animation \<Rightarrow> AnimationIter \<Rightarrow> 'dj \<Rightarrow> error + 'dj" where
  "animation_iter_load_dejong ops self iter dejong =
     (if \<not> valid iter then Inr dejong
      else
       (case animation_keyframe_load_dejong ops self (keyframe iter) (de_jong_new ops) of
          Inl e \<Rightarrow> Inl e
        | Inr a \<Rightarrow>
           (let (has_next, next_keyframe) = gtk_tree_model_iter_next (model self) (keyframe iter) in
            case (if has_next
                  then animation_keyframe_load_dejong ops self next_keyframe (de_jong_new ops)
                  else Inr a) of
              Inl e \<Rightarrow> Inl e
            | Inr b \<Rightarrow>
               (case gtk_tree_model_get (model self) (keyframe iter) of
                  None \<Rightarrow> Inl InvalidTreeIter
                | Some row \<Rightarrow>
                   (case fdiv (time_after_keyframe iter) (model_duration row) of
                      None \<Rightarrow> Inl NotFinite
                    | Some alpha \<Rightarrow>
                        Inr (de_jong_interpolate_linear ops dejong
                               (spline_solve_and_eval ops (model_spline row) alpha) (a, b)))))))"

text \<open>\<^verbatim>\<open>animation_iter_read_frame\<close> returns its result together with the new states
  of the iterator and of the frame.\<close>

definition animation_iter_read_frame ::
  "('dj, 'sp) dejong_ops \<Rightarrow> ('img, 'sp) Animation \<Rightarrow> AnimationIter \<Rightarrow> 'dj DeJongPair \<Rightarrow>
     gdouble \<Rightarrow> error + (bool \<times> AnimationIter \<times> 'dj DeJongPair)" where
  "animation_iter_read_frame ops self iter frame frame_rate =
     (if \<not> valid iter then Inr (False, iter, frame)
      else
       (case animation_iter_load_dejong ops self iter (pair_a frame) of
          Inl e \<Rightarrow> Inl e
        | Inr a \<Rightarrow>
           (case fdiv 1 frame_rate of
              None \<Rightarrow> Inl NotFinite
            | Some delta_time \<Rightarrow>
               (case animation_iter_seek_relative self iter delta_time of
                  Inl e \<Rightarrow> Inl e
                | Inr iter' \<Rightarrow>
                   if \<not> valid iter' then Inr (False, iter', frame\<lparr>pair_a := a\<rparr>)
                   else
                     (case animation_iter_load_dejong ops self iter' (pair_b frame) of
                        Inl e \<Rightarrow> Inl e
                      | Inr b \<Rightarrow> Inr (True, iter', frame\<lparr>pair_a := a, pair_b := b\<rparr>))))))"

text \<open>Successive calls of \<^verbatim>\<open>animation_iter_read_frame\<close> on the same iterator and
  frame: the results of the calls in order, and the iterator and frame after the last.\<close>

fun read_frames ::
  "nat \<Rightarrow> ('dj, 'sp) dejong_ops \<Rightarrow> ('img, 'sp) Animation \<Rightarrow> AnimationIter \<Rightarrow> 'dj DeJongPair \<Rightarrow>
     gdouble \<Rightarrow> error + (bool list \<times> AnimationIter \<times> 'dj DeJongPair)" where
  "read_frames 0 ops self iter frame frame_rate = Inr ([], iter, frame)"
| "read_frames (Suc n) ops self iter frame frame_rate =
     (case animation_iter_read_frame ops self iter frame frame_rate of
        Inl e \<Rightarrow> Inl e
      | Inr (r, iter', frame') \<Rightarrow>
         (case read_frames n ops self iter' frame' frame_rate of
            Inl e \<Rightarrow> Inl e
          | Inr (rs, iter'', frame'') \<Rightarrow> Inr (r # rs, iter'', frame'')))"

subsection \<open>Auxiliary notions for the properties\<close>

text \<open>The chunks that \<open>save_keyframe\<close> writes for a row; the thumbnail a row has after
  it has been saved and loaded (the pixbuf the loader decodes from the PNG written, if
  one was written); and the condition under which a row is read back as it was: its
  duration is a double (its 8 bytes read back give it), its parameter string has no NUL
  inside, and it has a spline that the spline code reads back from its serialised form.\<close>

definition keyframe_chunks :: "('img, 'sp) file_ops \<Rightarrow> ('img, 'sp) keyframe \<Rightarrow> chunk list" where
  "keyframe_chunks ops row = file_chunks (save_keyframe ops row empty_file)"

definition loaded_thumbnail :: "('img, 'sp) file_ops \<Rightarrow> 'img option \<Rightarrow> 'img option" where
  "loaded_thumbnail ops thumb =
     (case thumb of
        None \<Rightarrow> None
      | Some t \<Rightarrow>
          (case gdk_pixbuf_save_to_buffer ops t of
             None \<Rightarrow> None
           | Some buffer \<Rightarrow> gdk_pixbuf_loader ops buffer))"

definition round_trips :: "('img, 'sp) file_ops \<Rightarrow> ('img, 'sp) keyframe \<Rightarrow> bool" where
  "round_trips ops row =
     (length (bytes_of_gdouble ops (model_duration row)) = 8 \<and>
      gdouble_of_bytes ops (bytes_of_gdouble ops (model_duration row)) = model_duration row \<and>
      (\<forall>p. model_params row = Some p \<longrightarrow> CHR 0x00 \<notin> set p) \<and>
      (\<exists>s. model_spline row = Some s \<and> spline_unserialize ops (spline_serialize ops s) = Some s))"

subsection \<open>Values for the examples\<close>

text \<open>A store whose thumbnails and splines are byte strings, with one keyframe for each
  of the given durations.\<close>

definition example_animation :: "gdouble list \<Rightarrow> (string, string) Animation" where
  "example_animation ds =
     \<lparr>model = map (\<lambda>(i, d). \<lparr>model_thumbnail = None, model_params = Some ''a=1'',
                              model_duration = d, model_spline = Some ''s'',
                              model_iter = Some i\<rparr>) (enumerate 0 ds)\<rparr>"

text \<open>Collaborators for the examples: a spline and a thumbnail are their own
  serialised bytes, and the doubles 3.0 and 5.0 have their IEEE 754 little-endian bytes
  (every other byte string reads as 5.0).\<close>

definition example_file_ops :: "(string, string) file_ops" where
  "example_file_ops =
     \<lparr>spline_template_smooth = ''smooth'',
      spline_serialize = (\<lambda>s. s),
      spline_unserialize = Some,
      gdk_pixbuf_save_to_buffer = Some,
      gdk_pixbuf_loader = Some,
      bytes_of_gdouble = (\<lambda>d. replicate 6 (CHR 0x00) @
                                (if d = 3 then [CHR 0x08, CHR 0x40] else [CHR 0x14, CHR 0x40])),
      gdouble_of_bytes = (\<lambda>b. if b = replicate 6 (CHR 0x00) @ [CHR 0x08, CHR 0x40]
                                then 3 else 5)\<rparr>"

text \<open>A \<^verbatim>\<open>DeJong\<close> object with a single parameter: loading a parameter string sets
  it to the length of the string, the spline is the identity curve, and interpolation is
  linear.\<close>

definition example_dejong_ops :: "(real, string) dejong_ops" where
  "example_dejong_ops =
     \<lparr>de_jong_new = 0,
      de_jong_load_string = (\<lambda>dejong p. case p of None \<Rightarrow> dejong | Some s \<Rightarrow> real (length s)),
      spline_solve_and_eval = (\<lambda>s x. x),
      de_jong_interpolate_linear = (\<lambda>dejong alpha (a, b). (1 - alpha) * a + alpha * b)\<rparr>"

section \<open>Properties\<close>

text \<open>The definitions that evaluate a seek, a frame and a load on given values.\<close>

text \<open>The doubles of the examples: sums and differences that are doubles themselves
  are not changed by the rounding; \<open>10^17 - 1\<close> is no double and rounds to \<open>10^17\<close>.\<close>

lemma round_gdouble_values:
  "round_gdouble (1 / 2) = 1 / 2"
  "round_gdouble 1 = 1"
  "round_gdouble (3 / 2) = 3 / 2"
  "round_gdouble 2 = 2"
  "round_gdouble (5 / 2) = 5 / 2"
  "round_gdouble 3 = 3"
  "round_gdouble 5 = 5"
  "round_gdouble 6 = 6"
  "round_gdouble (- 1) = - 1"
  "round_gdouble (- 5) = - 5"
  "round_gdouble 100000000000000000 = 100000000000000000"
proof -
  show "round_gdouble (1 / 2) = 1 / 2"
    by (rule round_gdouble_exact[where E = "- 1" and n = "2 ^ 52"])
       (simp_all add: power_int_minus)
  show "round_gdouble 1 = 1"
    by (rule round_gdouble_exact[where E = 0 and n = "2 ^ 52"])
       (simp_all add: power_int_minus)
  show "round_gdouble (3 / 2) = 3 / 2"
    by (rule round_gdouble_exact[where E = 0 and n = "3 * 2 ^ 51"])
       (simp_all add: power_int_minus)
  show "round_gdouble 2 = 2"
    by (rule round_gdouble_exact[where E = 1 and n = "2 ^ 52"])
       (simp_all add: power_int_minus)
  show "round_gdouble (5 / 2) = 5 / 2"
    by (rule round_gdouble_exact[where E = 1 and n = "5 * 2 ^ 50"])
       (simp_all add: power_int_minus)
  show "round_gdouble 3 = 3"
    by (rule round_gdouble_exact[where E = 1 and n = "3 * 2 ^ 51"])
       (simp_all add: power_int_minus)
  show "round_gdouble 5 = 5"
    by (rule round_gdouble_exact[where E = 2 and n = "5 * 2 ^ 50"])
       (simp_all add: power_int_minus)
  show "round_gdouble 6 = 6"
    by (rule round_gdouble_exact[where E = 2 and n = "3 * 2 ^ 51"])
       (simp_all add: power_int_minus)
  show "round_gdouble (- 1) = - 1"
    by (rule round_gdouble_exact[where E = 0 and n = "- (2 ^ 52)"])
       (simp_all add: power_int_minus)
  show "round_gdouble (- 5) = - 5"
    by (rule round_gdouble_exact[where E = 2 and n = "- 5 * 2 ^ 50"])
       (simp_all add: power_int_minus)
  show "round_gdouble 100000000000000000 = 100000000000000000"
    by (rule round_gdouble_exact[where E = 56 and n = 6250000000000000])
       (simp_all add: power_int_minus)
qed

lemma round_gdouble_absorbs: "round_gdouble 99999999999999999 = 100000000000000000"
proof -
  have "round_half_even (99999999999999999 / 2 powi (56 - 52)) = 6250000000000000"
    by (simp add: round_half_even_def Let_def)
  from round_gdouble_eval[where E = 56, OF _ _ this] show ?thesis by simp
qed

lemmas seek_eval = seek_loop.simps seek_iteration_def animation_iter_seek_relative_def
  animation_iter_get_first_def gtk_tree_model_get_def
  gtk_tree_model_iter_next_def gtk_tree_model_get_iter_first_def Let_def
  gdouble_add_def gdouble_sub_def round_gdouble_zero round_gdouble_values round_gdouble_absorbs

lemmas frame_eval = animation_iter_read_frame_def animation_iter_load_dejong_def
  animation_keyframe_load_dejong_def fdiv_def

lemmas load_eval = animation_load_file_def chunked_file_read_signature_def animation_clear_def
  gtk_list_store_clear_def load_loop.simps chunked_file_read_chunk_def load_chunk_def Let_def
  animation_keyframe_append_default_def gtk_list_store_append_def gtk_list_store_set_def
  empty_row_def sizeof_gdouble_def chunked_file_warn_unknown_type_def g_strdup_def
  CHUNK_KEYFRAME_START_def CHUNK_KEYFRAME_END_def CHUNK_DE_JONG_PARAMS_def CHUNK_THUMBNAIL_def
  CHUNK_SPLINE_def CHUNK_DURATION_def CHUNK_TYPE_def


subsection \<open>The start time of a keyframe and the length of the animation\<close>

lemma get_length_loop_sum:
  "i < length m \<Longrightarrow>
   get_length_loop m (True, Some i) tot = tot + sum_list (map model_duration (drop i m))"
proof (induction "length m - i" arbitrary: i tot)
  case 0
  then show ?case by simp
next
  case (Suc n)
  show ?case
  proof (cases "Suc i < length m")
    case True
    have "get_length_loop m (True, Some (Suc i)) (tot + model_duration (m ! i)) =
          tot + model_duration (m ! i) + sum_list (map model_duration (drop (Suc i) m))"
      using Suc.hyps(1)[of "Suc i"] Suc.hyps(2) True by simp
    then show ?thesis using Suc.prems True
      by (simp add: get_length_loop.simps[of m True "Some i"] gtk_tree_model_get_def
            gtk_tree_model_iter_next_def Cons_nth_drop_Suc[symmetric])
  next
    case False
    then have "drop i m = [m ! i]" using Suc.prems
      by (metis Cons_nth_drop_Suc drop_all not_less)
    then show ?thesis using Suc.prems False
      by (simp add: get_length_loop.simps[of m True "Some i"]
            get_length_loop.simps[of m False None] gtk_tree_model_get_def
            gtk_tree_model_iter_next_def)
  qed
qed

lemma animation_get_length_sum:
  "animation_get_length self = sum_list (map model_duration (model self))"
  by (cases "model self = []")
     (simp_all add: animation_get_length_def gtk_tree_model_get_iter_first_def get_length_loop_sum
        get_length_loop.simps[of _ False])

text \<open>With a reference that matches no row, the scan of
  \<^verbatim>\<open>animation_keyframe_get_time\<close> never breaks out, and it is the scan of
  \<^verbatim>\<open>animation_get_length\<close> step for step.\<close>

lemma get_time_loop_no_match:
  "\<forall>i<length m. iter \<noteq> Some i \<Longrightarrow> get_time_loop m iter st tot = get_length_loop m st tot"
proof (induction m st tot rule: get_length_loop.induct)
  case (1 m valid it tot)
  show ?case
  proof (cases "gtk_tree_model_get m it")
    case None
    then show ?thesis
      by (simp add: get_time_loop.simps[of m iter valid it] get_length_loop.simps[of m valid it])
  next
    case (Some row)
    then have "it \<noteq> iter" using 1(2)
      by (auto simp: gtk_tree_model_get_def split: option.splits if_splits)
    then show ?thesis using 1 Some
      by (simp add: get_time_loop.simps[of m iter valid it] get_length_loop.simps[of m valid it])
  qed
qed

text \<open>
  \<^bold>\<open>C10.\<close> For every keyframe reference that matches no row of the store (it points
  at no row: it has been invalidated, or its row is gone, as every row is after a clear),
  \<^verbatim>\<open>animation_keyframe_get_time\<close> returns what \<^verbatim>\<open>animation_get_length\<close>
  returns, the sum of the durations of all the keyframes of the store.
\<close>

theorem keyframe_get_time_unmatched:
  "\<forall>i<length (model self). iter \<noteq> Some i \<Longrightarrow>
   animation_keyframe_get_time self iter = animation_get_length self \<and>
   animation_get_length self = sum_list (map model_duration (model self))"
  by (simp add: animation_keyframe_get_time_def animation_get_length_def[symmetric]
        get_time_loop_no_match animation_get_length_sum)

theorem keyframe_get_time_unmatched_witness:
  "animation_keyframe_get_time (example_animation [5, 3]) (Some 2) = 8"
proof -
  have h: "\<forall>i<length (model (example_animation [5, 3])). Some 2 \<noteq> Some i"
    by (simp add: example_animation_def)
  show ?thesis
    using keyframe_get_time_unmatched[OF h] by (simp add: example_animation_def)
qed

subsection \<open>Seeking\<close>

lemma seek_loop_fuel_enough:
  "seek_measure self iter < n \<Longrightarrow> seek_loop_fuel n self iter = Some (seek_loop self iter)"
proof (induction n arbitrary: iter)
  case 0
  then show ?case by simp
next
  case (Suc n)
  show ?case
  proof (cases "seek_iteration self iter")
    case (Again iter')
    then have "seek_measure self iter' < n"
      using seek_iteration_decreases[OF Again] Suc.prems by simp
    then show ?thesis using Suc.IH Again by (simp add: seek_loop.simps[of self iter])
  next
    case (Done r)
    then show ?thesis by (simp add: seek_loop.simps[of self iter])
  qed
qed

lemma seek_measure_bound: "seek_measure self iter < 2 * length (model self) + 3"
  by (auto simp: seek_measure_def split: option.splits)

lemma seek_iteration_cases:
  "(\<exists>r. seek_iteration self it = Done r) \<or>
   seek_iteration self it = Again (animation_iter_get_first self it) \<or>
   (\<exists>i. keyframe it = Some i \<and> i < length (model self) \<and>
      seek_iteration self it =
        Again (it\<lparr>valid := Suc i < length (model self),
                  keyframe := (if Suc i < length (model self) then Some (Suc i) else None),
                  time_after_keyframe :=
                    gdouble_sub (time_after_keyframe it) (model_duration (model self ! i))\<rparr>))"
  by (auto simp: seek_iteration_def Let_def gtk_tree_model_get_def gtk_tree_model_iter_next_def
      split: option.splits)

text \<open>
  \<^bold>\<open>C5.\<close> For every store and every delta the normalisation loop of
  \<^verbatim>\<open>animation_iter_seek_relative\<close> terminates, also with keyframes of duration zero:
  a pass through the loop leaves it, or resets the iterator to the first keyframe, or
  moves it to the next keyframe (or past the last one), and after at most
  \<open>2 * n + 3\<close> loop tests, \<open>n\<close> the number of keyframes, the loop has been left with
  the result of the function.
\<close>

theorem seek_relative_terminates:
  "((\<exists>r. seek_iteration self it = Done r) \<or>
    seek_iteration self it = Again (animation_iter_get_first self it) \<or>
    (\<exists>i. keyframe it = Some i \<and> i < length (model self) \<and>
       seek_iteration self it =
         Again (it\<lparr>valid := Suc i < length (model self),
                   keyframe := (if Suc i < length (model self) then Some (Suc i) else None),
                   time_after_keyframe :=
                     gdouble_sub (time_after_keyframe it)
                       (model_duration (model self ! i))\<rparr>))) \<and>
   seek_loop_fuel (2 * length (model self) + 3) self
     (iter\<lparr>time_after_keyframe := gdouble_add (time_after_keyframe iter) delta_time\<rparr>)
   = Some (animation_iter_seek_relative self iter delta_time)"
  using seek_iteration_cases[of self it]
  by (simp only: animation_iter_seek_relative_def seek_loop_fuel_enough[OF seek_measure_bound]
        simp_thms)

subsection \<open>Loading\<close>

lemma load_loop_Nil: "load_loop ops st (f\<lparr>file_chunks := []\<rparr>) = (st, [])"
  by (simp add: load_loop.simps[of ops st] chunked_file_read_chunk_def)

lemma load_loop_Cons:
  "load_loop ops st (f\<lparr>file_chunks := c # cs\<rparr>) =
     (let (st1, log1) = load_chunk ops st c;
          (st2, log2) = load_loop ops st1 (f\<lparr>file_chunks := cs\<rparr>)
      in (st2, log1 @ log2))"
  by (simp add: load_loop.simps[of ops st "f\<lparr>file_chunks := c # cs\<rparr>"]
        chunked_file_read_chunk_def)

lemma load_loop_append:
  "load_loop ops st (f\<lparr>file_chunks := xs @ ys\<rparr>) =
     (let (st1, log1) = load_loop ops st (f\<lparr>file_chunks := xs\<rparr>);
          (st2, log2) = load_loop ops st1 (f\<lparr>file_chunks := ys\<rparr>)
      in (st2, log1 @ log2))"
proof (induction xs arbitrary: st)
  case Nil
  then show ?case by (simp add: load_loop_Nil split: prod.splits)
next
  case (Cons c xs)
  show ?case
    by (simp add: load_loop_Cons Cons.IH split: prod.splits)
qed

lemma load_chunk_unknown:
  "chunk_type u \<notin> {CHUNK_KEYFRAME_START, CHUNK_KEYFRAME_END, CHUNK_DE_JONG_PARAMS,
      CHUNK_THUMBNAIL, CHUNK_SPLINE, CHUNK_DURATION} \<Longrightarrow>
   load_chunk ops st u = (st, [UnknownTypeWarning (chunk_type u)])"
  by (simp add: load_chunk_def Let_def chunked_file_warn_unknown_type_def)

text \<open>
  \<^bold>\<open>C6.\<close> When the signature of the file does not match, \<^verbatim>\<open>animation_load_file\<close>
  returns with the animation as it was: the store is cleared only after the check of the
  signature has succeeded. The failed check is logged.
\<close>

theorem load_bad_signature_keeps_store:
  "\<not> chunked_file_read_signature f FILE_SIGNATURE \<Longrightarrow>
   animation_load_file ops self (Some f) = (self, [Critical])"
  by (simp add: animation_load_file_def)

theorem load_bad_signature_keeps_store_witness:
  "animation_load_file example_file_ops (example_animation [5, 3])
     (Some \<lparr>file_signature = ''de Jong Explorer Animation'',
            file_chunks = [\<lparr>chunk_type = CHUNK_KEYFRAME_START, chunk_data = []\<rparr>]\<rparr>)
   = (example_animation [5, 3], [Critical])"
proof -
  have h: "\<not> chunked_file_read_signature
      \<lparr>file_signature = ''de Jong Explorer Animation'',
       file_chunks = [\<lparr>chunk_type = CHUNK_KEYFRAME_START, chunk_data = []\<rparr>]\<rparr> FILE_SIGNATURE"
    by (simp add: chunked_file_read_signature_def FILE_SIGNATURE_def)
  show ?thesis
    by (rule load_bad_signature_keeps_store[OF h])
qed

text \<open>
  \<^bold>\<open>C8.\<close> A chunk whose type is none of the six known ones does not end the load: it
  changes neither the store nor the current row, a warning is logged for it, and the
  chunks after it are applied as they are without it, so the loaded store is the one of
  the file without the chunk.
\<close>

theorem load_skips_unknown_chunk:
  assumes "chunk_type u \<notin> {CHUNK_KEYFRAME_START, CHUNK_KEYFRAME_END, CHUNK_DE_JONG_PARAMS,
      CHUNK_THUMBNAIL, CHUNK_SPLINE, CHUNK_DURATION}"
  shows "load_chunk ops st u = (st, [UnknownTypeWarning (chunk_type u)]) \<and>
    load_loop ops st (f\<lparr>file_chunks := cs1 @ u # cs2\<rparr>) =
      (let (st1, log1) = load_loop ops st (f\<lparr>file_chunks := cs1\<rparr>);
           (st2, log2) = load_loop ops st1 (f\<lparr>file_chunks := cs2\<rparr>)
       in (st2, log1 @ UnknownTypeWarning (chunk_type u) # log2)) \<and>
    load_loop ops st (f\<lparr>file_chunks := cs1 @ cs2\<rparr>) =
      (let (st1, log1) = load_loop ops st (f\<lparr>file_chunks := cs1\<rparr>);
           (st2, log2) = load_loop ops st1 (f\<lparr>file_chunks := cs2\<rparr>)
       in (st2, log1 @ log2)) \<and>
    fst (animation_load_file ops self (Some (f\<lparr>file_chunks := cs1 @ u # cs2\<rparr>))) =
    fst (animation_load_file ops self (Some (f\<lparr>file_chunks := cs1 @ cs2\<rparr>)))"
proof -
  note u = load_chunk_unknown[OF assms]
  have a: "load_loop ops st (f\<lparr>file_chunks := cs1 @ u # cs2\<rparr>) =
      (let (st1, log1) = load_loop ops st (f\<lparr>file_chunks := cs1\<rparr>);
           (st2, log2) = load_loop ops st1 (f\<lparr>file_chunks := cs2\<rparr>)
       in (st2, log1 @ UnknownTypeWarning (chunk_type u) # log2))" for st
    by (simp add: load_loop_append[where xs=cs1 and ys="u # cs2"] load_loop_Cons u split: prod.splits)
  have b: "fst (load_loop ops st (f\<lparr>file_chunks := cs1 @ u # cs2\<rparr>)) =
           fst (load_loop ops st (f\<lparr>file_chunks := cs1 @ cs2\<rparr>))" for st
    by (simp add: a load_loop_append[where xs=cs1 and ys=cs2] split: prod.splits)
  have c: "fst (animation_load_file ops self (Some (f\<lparr>file_chunks := cs1 @ u # cs2\<rparr>))) =
    fst (animation_load_file ops self (Some (f\<lparr>file_chunks := cs1 @ cs2\<rparr>)))"
    using b[of "(animation_clear self, None)"]
    by (auto simp: animation_load_file_def chunked_file_read_signature_def Let_def split: prod.splits)
  have d: "load_loop ops st (f\<lparr>file_chunks := cs1 @ cs2\<rparr>) =
      (let (st1, log1) = load_loop ops st (f\<lparr>file_chunks := cs1\<rparr>);
           (st2, log2) = load_loop ops st1 (f\<lparr>file_chunks := cs2\<rparr>)
       in (st2, log1 @ log2))"
    by (rule load_loop_append)
  show ?thesis using u[of ops st] a[of st] c d by blast
qed

theorem load_skips_unknown_chunk_witness:
  "fst (animation_load_file example_file_ops (example_animation [5, 3])
       (Some \<lparr>file_signature = FILE_SIGNATURE,
              file_chunks = [\<lparr>chunk_type = CHUNK_KEYFRAME_START, chunk_data = []\<rparr>,
                \<lparr>chunk_type = ''futr'', chunk_data = ''xyz''\<rparr>,
                \<lparr>chunk_type = CHUNK_DURATION,
                 chunk_data = replicate 6 (CHR 0x00) @ [CHR 0x08, CHR 0x40]\<rparr>,
                \<lparr>chunk_type = CHUNK_KEYFRAME_END, chunk_data = []\<rparr>]\<rparr>))
   = \<lparr>model = [\<lparr>model_thumbnail = None, model_params = None, model_duration = 3,
                 model_spline = Some ''smooth'', model_iter = Some 0\<rparr>]\<rparr>"
proof -
  have h: "chunk_type \<lparr>chunk_type = ''futr'', chunk_data = ''xyz''\<rparr> \<notin>
     {CHUNK_KEYFRAME_START, CHUNK_KEYFRAME_END, CHUNK_DE_JONG_PARAMS,
      CHUNK_THUMBNAIL, CHUNK_SPLINE, CHUNK_DURATION}"
    by (simp add: load_eval)
  have e: "fst (animation_load_file example_file_ops (example_animation [5, 3])
       (Some \<lparr>file_signature = FILE_SIGNATURE,
              file_chunks = [\<lparr>chunk_type = CHUNK_KEYFRAME_START, chunk_data = []\<rparr>,
                \<lparr>chunk_type = CHUNK_DURATION,
                 chunk_data = replicate 6 (CHR 0x00) @ [CHR 0x08, CHR 0x40]\<rparr>,
                \<lparr>chunk_type = CHUNK_KEYFRAME_END, chunk_data = []\<rparr>]\<rparr>))
   = \<lparr>model = [\<lparr>model_thumbnail = None, model_params = None, model_duration = 3,
                 model_spline = Some ''smooth'', model_iter = Some 0\<rparr>]\<rparr>"
    by (simp add: load_eval example_file_ops_def)
  from load_skips_unknown_chunk[OF h, where ops = example_file_ops and self = "example_animation [5, 3]"
        and f = "\<lparr>file_signature = FILE_SIGNATURE, file_chunks = []\<rparr>"
        and ?cs1.0 = "[\<lparr>chunk_type = CHUNK_KEYFRAME_START, chunk_data = []\<rparr>]"
        and ?cs2.0 = "[\<lparr>chunk_type = CHUNK_DURATION,
                 chunk_data = replicate 6 (CHR 0x00) @ [CHR 0x08, CHR 0x40]\<rparr>,
                \<lparr>chunk_type = CHUNK_KEYFRAME_END, chunk_data = []\<rparr>]"]
  have "fst (animation_load_file example_file_ops (example_animation [5, 3])
       (Some \<lparr>file_signature = FILE_SIGNATURE,
              file_chunks = [\<lparr>chunk_type = CHUNK_KEYFRAME_START, chunk_data = []\<rparr>,
                \<lparr>chunk_type = ''futr'', chunk_data = ''xyz''\<rparr>,
                \<lparr>chunk_type = CHUNK_DURATION,
                 chunk_data = replicate 6 (CHR 0x00) @ [CHR 0x08, CHR 0x40]\<rparr>,
                \<lparr>chunk_type = CHUNK_KEYFRAME_END, chunk_data = []\<rparr>]\<rparr>)) =
     fst (animation_load_file example_file_ops (example_animation [5, 3])
       (Some \<lparr>file_signature = FILE_SIGNATURE,
              file_chunks = [\<lparr>chunk_type = CHUNK_KEYFRAME_START, chunk_data = []\<rparr>,
                \<lparr>chunk_type = CHUNK_DURATION,
                 chunk_data = replicate 6 (CHR 0x00) @ [CHR 0x08, CHR 0x40]\<rparr>,
                \<lparr>chunk_type = CHUNK_KEYFRAME_END, chunk_data = []\<rparr>]\<rparr>))"
    by simp
  then show ?thesis by (simp only: e)
qed

text \<open>
  \<^bold>\<open>C7.\<close> A duration chunk whose payload is not exactly 8 bytes long is not fatal:
  a warning is logged, the store is left as it is, and the loop goes on with the next
  chunk; a keyframe that has just been started so keeps its default duration 5.0. A
  duration chunk of exactly 8 bytes sets the duration of the current keyframe to the
  double in its payload.
\<close>

theorem load_duration_chunk:
  assumes "chunk_type c = CHUNK_DURATION"
  shows
   "(length (chunk_data c) \<noteq> 8 \<longrightarrow>
       load_chunk ops st c = (st, [DurationSizeWarning (length (chunk_data c)) 8]) \<and>
       load_loop ops st (f\<lparr>file_chunks := c # cs\<rparr>) =
         (let (st2, log2) = load_loop ops st (f\<lparr>file_chunks := cs\<rparr>)
          in (st2, DurationSizeWarning (length (chunk_data c)) 8 # log2)) \<and>
       model_duration (last (model (fst (fst (load_loop ops st
         (f\<lparr>file_chunks := [\<lparr>chunk_type = CHUNK_KEYFRAME_START, chunk_data = d\<rparr>, c]\<rparr>)))))) = 5) \<and>
    (length (chunk_data c) = 8 \<longrightarrow>
       (\<forall>self i. i < length (model self) \<longrightarrow>
          load_chunk ops (self, Some i) c =
            ((self\<lparr>model := (model self)[i := (model self ! i)
                       \<lparr>model_duration := gdouble_of_bytes ops (chunk_data c)\<rparr>]\<rparr>, Some i), [])))"
proof -
  have ty: "CHUNK_DURATION \<noteq> CHUNK_KEYFRAME_START" "CHUNK_DURATION \<noteq> CHUNK_KEYFRAME_END"
    "CHUNK_DURATION \<noteq> CHUNK_DE_JONG_PARAMS" "CHUNK_DURATION \<noteq> CHUNK_THUMBNAIL"
    by (simp_all add: CHUNK_KEYFRAME_START_def CHUNK_KEYFRAME_END_def CHUNK_DE_JONG_PARAMS_def
          CHUNK_THUMBNAIL_def CHUNK_DURATION_def CHUNK_TYPE_def)
  have bad: "load_chunk ops st c = (st, [DurationSizeWarning (length (chunk_data c)) 8])"
    if "length (chunk_data c) \<noteq> 8" for st :: "('a, 'b) Animation \<times> GtkTreeIter"
    using that assms ty by (simp add: load_chunk_def Let_def sizeof_gdouble_def)
  have start: "load_chunk ops st \<lparr>chunk_type = CHUNK_KEYFRAME_START, chunk_data = d\<rparr> =
      (animation_keyframe_append_default ops (fst st), [])"
    by (simp add: load_chunk_def Let_def)
  have dflt: "model_duration (last (model (fst (animation_keyframe_append_default ops (fst st))))) = 5"
    by (simp add: animation_keyframe_append_default_def gtk_list_store_append_def
          gtk_list_store_set_def Let_def)
  have good: "load_chunk ops (self, Some i) c =
            ((self\<lparr>model := (model self)[i := (model self ! i)
                       \<lparr>model_duration := gdouble_of_bytes ops (chunk_data c)\<rparr>]\<rparr>, Some i), [])"
    if "length (chunk_data c) = 8" "i < length (model self)" for self :: "('a, 'b) Animation" and i
    using that assms ty
    by (simp add: load_chunk_def Let_def sizeof_gdouble_def gtk_list_store_set_def)
  show ?thesis
    using good
    by (auto simp: bad load_loop_Cons load_loop_Nil start dflt split: prod.splits)
qed

theorem load_duration_chunk_witness:
  "load_chunk example_file_ops (example_animation [3], Some 0)
     \<lparr>chunk_type = CHUNK_DURATION, chunk_data = ''abc''\<rparr>
   = ((example_animation [3], Some 0), [DurationSizeWarning 3 8]) \<and>
   load_chunk example_file_ops (example_animation [5], Some 0)
     \<lparr>chunk_type = CHUNK_DURATION, chunk_data = replicate 6 (CHR 0x00) @ [CHR 0x08, CHR 0x40]\<rparr>
   = ((example_animation [3], Some 0), []) \<and>
   animation_load_file example_file_ops (example_animation [3])
       (Some \<lparr>file_signature = FILE_SIGNATURE,
              file_chunks = [\<lparr>chunk_type = CHUNK_KEYFRAME_START, chunk_data = []\<rparr>,
                \<lparr>chunk_type = CHUNK_DURATION, chunk_data = ''abc''\<rparr>,
                \<lparr>chunk_type = CHUNK_KEYFRAME_END, chunk_data = []\<rparr>]\<rparr>)
   = (\<lparr>model = [\<lparr>model_thumbnail = None, model_params = None, model_duration = 5,
                 model_spline = Some ''smooth'', model_iter = Some 0\<rparr>]\<rparr>,
      [DurationSizeWarning 3 8])"
proof -
  have h: "chunk_type \<lparr>chunk_type = CHUNK_DURATION, chunk_data = cd\<rparr> = CHUNK_DURATION" for cd
    by simp
  have a: "load_chunk example_file_ops (example_animation [3], Some 0)
     \<lparr>chunk_type = CHUNK_DURATION, chunk_data = ''abc''\<rparr>
   = ((example_animation [3], Some 0), [DurationSizeWarning 3 8])"
    using load_duration_chunk[OF h[of "''abc''"], where ops = example_file_ops
        and st = "(example_animation [3], Some 0)"]
    by simp
  have b: "load_chunk example_file_ops (example_animation [5], Some 0)
     \<lparr>chunk_type = CHUNK_DURATION, chunk_data = replicate 6 (CHR 0x00) @ [CHR 0x08, CHR 0x40]\<rparr>
   = ((example_animation [3], Some 0), [])"
    using load_duration_chunk[OF h[of "replicate 6 (CHR 0x00) @ [CHR 0x08, CHR 0x40]"],
        where ops = example_file_ops]
    by (simp add: example_animation_def example_file_ops_def)
  have c: "animation_load_file example_file_ops (example_animation [3])
       (Some \<lparr>file_signature = FILE_SIGNATURE,
              file_chunks = [\<lparr>chunk_type = CHUNK_KEYFRAME_START, chunk_data = []\<rparr>,
                \<lparr>chunk_type = CHUNK_DURATION, chunk_data = ''abc''\<rparr>,
                \<lparr>chunk_type = CHUNK_KEYFRAME_END, chunk_data = []\<rparr>]\<rparr>)
   = (\<lparr>model = [\<lparr>model_thumbnail = None, model_params = None, model_duration = 5,
                 model_spline = Some ''smooth'', model_iter = Some 0\<rparr>]\<rparr>,
      [DurationSizeWarning 3 8])"
    by (simp add: load_eval example_file_ops_def)
  show ?thesis using a b c by (intro conjI)
qed

subsection \<open>Saving and loading\<close>

lemma load_loop_empty: "file_chunks f = [] \<Longrightarrow> load_loop ops st f = (st, [])"
  by (simp add: load_loop.simps[of ops st f] chunked_file_read_chunk_def)

lemma save_keyframe_chunks:
  "save_keyframe ops row f = f\<lparr>file_chunks := file_chunks f @ keyframe_chunks ops row\<rparr>"
  by (simp add: keyframe_chunks_def save_keyframe_def chunked_file_write_chunk_def Let_def
        empty_file_def split: option.splits)

lemma save_loop_chunks:
  "i < length m \<Longrightarrow>
   save_loop ops m (True, Some i) f =
     f\<lparr>file_chunks := file_chunks f @ concat (map (keyframe_chunks ops) (drop i m))\<rparr>"
proof (induction "length m - i" arbitrary: i f)
  case 0
  then show ?case by simp
next
  case (Suc n)
  show ?case
  proof (cases "Suc i < length m")
    case True
    have "save_loop ops m (True, Some (Suc i)) (save_keyframe ops (m ! i) f) =
          (save_keyframe ops (m ! i) f)\<lparr>file_chunks :=
             file_chunks (save_keyframe ops (m ! i) f) @
             concat (map (keyframe_chunks ops) (drop (Suc i) m))\<rparr>"
      using Suc.hyps(1)[of "Suc i"] Suc.hyps(2) True by simp
    then show ?thesis using Suc.prems True
      by (simp add: save_loop.simps[of ops m True "Some i"] gtk_tree_model_get_def
            gtk_tree_model_iter_next_def Cons_nth_drop_Suc[symmetric] save_keyframe_chunks)
  next
    case False
    then have "drop i m = [m ! i]" using Suc.prems
      by (metis Cons_nth_drop_Suc drop_all not_less)
    then show ?thesis using Suc.prems False
      by (simp add: save_loop.simps[of ops m True "Some i"]
            save_loop.simps[of ops m False None] gtk_tree_model_get_def
            gtk_tree_model_iter_next_def save_keyframe_chunks)
  qed
qed

lemma animation_save_file_chunks:
  "animation_save_file ops self True =
     Some \<lparr>file_signature = FILE_SIGNATURE,
           file_chunks = concat (map (keyframe_chunks ops) (model self))\<rparr>"
  by (cases "model self = []")
     (simp_all add: animation_save_file_def gtk_tree_model_get_iter_first_def save_loop_chunks
        save_loop.simps[of _ _ False] chunked_file_write_signature_def empty_file_def)

lemma gtk_list_store_set_last:
  "gtk_list_store_set (m @ [r]) (Some (length m)) g = m @ [g r]"
  by (simp add: gtk_list_store_set_def)

lemma g_strdup_terminated: "CHR 0x00 \<notin> set p \<Longrightarrow> g_strdup (p @ [CHR 0x00]) = p"
  by (induction p) (auto simp: g_strdup_def)

lemma strlen_no_nul: "CHR 0x00 \<notin> set p \<Longrightarrow> strlen p = length p"
  by (induction p) (auto simp: strlen_def)

lemma load_keyframe_chunks:
  assumes "length (bytes_of_gdouble ops (model_duration row)) = 8"
    and "gdouble_of_bytes ops (bytes_of_gdouble ops (model_duration row)) = model_duration row"
    and "\<forall>p. model_params row = Some p \<longrightarrow> CHR 0x00 \<notin> set p"
    and "model_spline row = Some s"
    and "spline_unserialize ops (spline_serialize ops s) = Some s"
  shows "load_loop ops (self, it) (f\<lparr>file_chunks := keyframe_chunks ops row @ cs\<rparr>) =
         load_loop ops
           (self\<lparr>model := model self @
                    [row\<lparr>model_thumbnail := loaded_thumbnail ops (model_thumbnail row),
                         model_iter := Some (length (model self))\<rparr>]\<rparr>,
            Some (length (model self)))
           (f\<lparr>file_chunks := cs\<rparr>)"
  using assms
  by (cases row)
     (simp add: keyframe_chunks_def save_keyframe_def chunked_file_write_chunk_def Let_def
        empty_file_def load_loop_Cons load_chunk_def animation_keyframe_append_default_def
        gtk_list_store_append_def gtk_list_store_set_last empty_row_def sizeof_gdouble_def
        g_strdup_terminated strlen_no_nul loaded_thumbnail_def
        CHUNK_KEYFRAME_START_def CHUNK_KEYFRAME_END_def CHUNK_DE_JONG_PARAMS_def CHUNK_THUMBNAIL_def
        CHUNK_SPLINE_def CHUNK_DURATION_def CHUNK_TYPE_def
        split: option.splits)


lemma load_rows_chunks:
  "\<forall>r\<in>set rows. round_trips ops r \<Longrightarrow>
   \<exists>it' m'. load_loop ops (self, it)
              (f\<lparr>file_chunks := concat (map (keyframe_chunks ops) rows) @ cs\<rparr>) =
            load_loop ops (self\<lparr>model := model self @ m'\<rparr>, it') (f\<lparr>file_chunks := cs\<rparr>) \<and>
            length m' = length rows \<and>
            map model_duration m' = map model_duration rows \<and>
            map model_params m' = map model_params rows \<and>
            map model_spline m' = map model_spline rows \<and>
            map model_thumbnail m' = map (\<lambda>r. loaded_thumbnail ops (model_thumbnail r)) rows"
proof (induction rows arbitrary: self it)
  case Nil
  show ?case by (rule exI[of _ it], rule exI[of _ "[]"]) simp
next
  case (Cons r rows)
  let ?r' = "r\<lparr>model_thumbnail := loaded_thumbnail ops (model_thumbnail r),
               model_iter := Some (length (model self))\<rparr>"
  let ?self1 = "self\<lparr>model := model self @ [?r']\<rparr>"
  from Cons.prems have r: "round_trips ops r" and rows: "\<forall>r\<in>set rows. round_trips ops r"
    by simp_all
  from r obtain s where s: "model_spline r = Some s"
      "spline_unserialize ops (spline_serialize ops s) = Some s"
    by (auto simp: round_trips_def)
  have one: "load_loop ops (self, it)
        (f\<lparr>file_chunks := keyframe_chunks ops r @ (concat (map (keyframe_chunks ops) rows) @ cs)\<rparr>) =
      load_loop ops (?self1, Some (length (model self)))
        (f\<lparr>file_chunks := concat (map (keyframe_chunks ops) rows) @ cs\<rparr>)"
    using r s by (intro load_keyframe_chunks) (simp_all add: round_trips_def)
  from Cons.IH[OF rows, of ?self1 "Some (length (model self))"]
  obtain it' m' where rest:
    "load_loop ops (?self1, Some (length (model self)))
        (f\<lparr>file_chunks := concat (map (keyframe_chunks ops) rows) @ cs\<rparr>) =
      load_loop ops (?self1\<lparr>model := model ?self1 @ m'\<rparr>, it') (f\<lparr>file_chunks := cs\<rparr>)"
    "length m' = length rows"
    "map model_duration m' = map model_duration rows"
    "map model_params m' = map model_params rows"
    "map model_spline m' = map model_spline rows"
    "map model_thumbnail m' = map (\<lambda>r. loaded_thumbnail ops (model_thumbnail r)) rows"
    by blast
  have "load_loop ops (self, it)
          (f\<lparr>file_chunks := concat (map (keyframe_chunks ops) (r # rows)) @ cs\<rparr>) =
        load_loop ops (self\<lparr>model := model self @ (?r' # m')\<rparr>, it') (f\<lparr>file_chunks := cs\<rparr>)"
    using one rest(1) by simp
  moreover have "length (?r' # m') = length (r # rows)" using rest(2) by simp
  moreover have "map model_duration (?r' # m') = map model_duration (r # rows)"
    using rest(3) by simp
  moreover have "map model_params (?r' # m') = map model_params (r # rows)"
    using rest(4) by simp
  moreover have "map model_spline (?r' # m') = map model_spline (r # rows)"
    using rest(5) by simp
  moreover have "map model_thumbnail (?r' # m') =
      map (\<lambda>r. loaded_thumbnail ops (model_thumbnail r)) (r # rows)"
    using rest(6) by simp
  ultimately show ?case by (intro exI[of _ it'] exI[of _ "?r' # m'"] conjI)
qed

text \<open>
  \<^bold>\<open>C2.\<close> Saving an animation and loading the file written gives a store with the
  same number of keyframes and, keyframe by keyframe, the same duration, the same
  parameter string and the same spline, whatever the store held before the load; nothing
  is logged. It holds for every number of keyframes, for durations that are doubles,
  parameter strings without NUL and splines that the spline code reads back from their
  serialised form. The thumbnail of a loaded keyframe is the pixbuf decoded from the PNG
  that was written for it.
\<close>

theorem save_load_round_trip:
  assumes "\<forall>r\<in>set (model self).
             length (bytes_of_gdouble ops (model_duration r)) = 8 \<and>
             gdouble_of_bytes ops (bytes_of_gdouble ops (model_duration r)) = model_duration r"
    and "\<forall>r\<in>set (model self). \<forall>p. model_params r = Some p \<longrightarrow> CHR 0x00 \<notin> set p"
    and "\<forall>r\<in>set (model self).
           \<exists>s. model_spline r = Some s \<and> spline_unserialize ops (spline_serialize ops s) = Some s"
  shows "\<exists>f self'. animation_save_file ops self True = Some f \<and>
      animation_load_file ops other (Some f) = (self', []) \<and>
      length (model self') = length (model self) \<and>
      map model_duration (model self') = map model_duration (model self) \<and>
      map model_params (model self') = map model_params (model self) \<and>
      map model_spline (model self') = map model_spline (model self) \<and>
      map model_thumbnail (model self') =
        map (\<lambda>r. loaded_thumbnail ops (model_thumbnail r)) (model self)"
proof -
  have rt: "\<forall>r\<in>set (model self). round_trips ops r"
    using assms by (simp add: round_trips_def)
  let ?f = "\<lparr>file_signature = FILE_SIGNATURE,
             file_chunks = concat (map (keyframe_chunks ops) (model self))\<rparr>"
  from load_rows_chunks[OF rt, where self = "animation_clear other" and it = None
      and f = ?f and cs = "[]"]
  obtain it' m' where m':
    "load_loop ops (animation_clear other, None) ?f =
       load_loop ops ((animation_clear other)\<lparr>model := model (animation_clear other) @ m'\<rparr>, it')
         (?f\<lparr>file_chunks := []\<rparr>)"
    "length m' = length (model self)"
    "map model_duration m' = map model_duration (model self)"
    "map model_params m' = map model_params (model self)"
    "map model_spline m' = map model_spline (model self)"
    "map model_thumbnail m' = map (\<lambda>r. loaded_thumbnail ops (model_thumbnail r)) (model self)"
    by auto
  have "animation_load_file ops other (Some ?f) = (other\<lparr>model := m'\<rparr>, [])"
    using m'(1)
    by (simp add: animation_load_file_def chunked_file_read_signature_def load_loop_empty
          animation_clear_def gtk_list_store_clear_def)
  then show ?thesis
    using m'(2-) animation_save_file_chunks[of ops self] by auto
qed


theorem save_load_round_trip_witness:
  "\<exists>f self'. animation_save_file example_file_ops (example_animation [5, 3]) True = Some f \<and>
      animation_load_file example_file_ops (example_animation [1]) (Some f) = (self', []) \<and>
      length (model self') = 2 \<and>
      map model_duration (model self') = [5, 3] \<and>
      map model_params (model self') = [Some ''a=1'', Some ''a=1''] \<and>
      map model_spline (model self') = [Some ''s'', Some ''s''] \<and>
      map model_thumbnail (model self') = [None, None]"
proof -
  have h1: "\<forall>r\<in>set (model (example_animation [5, 3])).
             length (bytes_of_gdouble example_file_ops (model_duration r)) = 8 \<and>
             gdouble_of_bytes example_file_ops (bytes_of_gdouble example_file_ops (model_duration r))
               = model_duration r"
    by (simp add: example_animation_def example_file_ops_def)
  have h2: "\<forall>r\<in>set (model (example_animation [5, 3])).
             \<forall>p. model_params r = Some p \<longrightarrow> CHR 0x00 \<notin> set p"
    by (simp add: example_animation_def)
  have h3: "\<forall>r\<in>set (model (example_animation [5, 3])).
           \<exists>s. model_spline r = Some s \<and>
               spline_unserialize example_file_ops (spline_serialize example_file_ops s) = Some s"
    by (simp add: example_animation_def example_file_ops_def)
  show ?thesis
    using save_load_round_trip[OF h1 h2 h3, of "example_animation [1]"]
    by (simp add: example_animation_def loaded_thumbnail_def numeral_2_eq_2)
qed

subsection \<open>Seeking to a time and reading frames\<close>

text \<open>
  \<^bold>\<open>C4.\<close> In an animation of two keyframes with the durations 5.0 and 5.0, seeking to
  the time 0 gives a valid iterator on keyframe 0 with \<open>time_after_keyframe = 0\<close>,
  seeking to 5.0 gives keyframe 1 with \<open>time_after_keyframe = 0\<close>, and seeking to 2.5
  gives keyframe 0 with \<open>time_after_keyframe = 2.5\<close>. The linear alpha that
  \<^verbatim>\<open>animation_iter_load_dejong\<close> hands to the spline there is 0, 0 and 0.5.
\<close>

theorem seek_absolute_two_keyframes:
  "animation_iter_seek \<lparr>model = [k0\<lparr>model_duration := 5\<rparr>, k1\<lparr>model_duration := 5\<rparr>]\<rparr> it 0
     = Inr \<lparr>valid = True, keyframe = Some 0, absolute_time = 0, time_after_keyframe = 0\<rparr> \<and>
   animation_iter_seek \<lparr>model = [k0\<lparr>model_duration := 5\<rparr>, k1\<lparr>model_duration := 5\<rparr>]\<rparr> it 5
     = Inr \<lparr>valid = True, keyframe = Some 1, absolute_time = 0, time_after_keyframe = 0\<rparr> \<and>
   animation_iter_seek \<lparr>model = [k0\<lparr>model_duration := 5\<rparr>, k1\<lparr>model_duration := 5\<rparr>]\<rparr> it 2.5
     = Inr \<lparr>valid = True, keyframe = Some 0, absolute_time = 0, time_after_keyframe = 2.5\<rparr> \<and>
   animation_iter_load_dejong ops \<lparr>model = [k0\<lparr>model_duration := 5\<rparr>, k1\<lparr>model_duration := 5\<rparr>]\<rparr>
       \<lparr>valid = True, keyframe = Some 0, absolute_time = 0, time_after_keyframe = 0\<rparr> dejong
     = Inr (de_jong_interpolate_linear ops dejong
              (spline_solve_and_eval ops (model_spline k0) 0)
              (de_jong_load_string ops (de_jong_new ops) (model_params k0),
               de_jong_load_string ops (de_jong_new ops) (model_params k1))) \<and>
   animation_iter_load_dejong ops \<lparr>model = [k0\<lparr>model_duration := 5\<rparr>, k1\<lparr>model_duration := 5\<rparr>]\<rparr>
       \<lparr>valid = True, keyframe = Some 1, absolute_time = 0, time_after_keyframe = 0\<rparr> dejong
     = Inr (de_jong_interpolate_linear ops dejong
              (spline_solve_and_eval ops (model_spline k1) 0)
              (de_jong_load_string ops (de_jong_new ops) (model_params k1),
               de_jong_load_string ops (de_jong_new ops) (model_params k1))) \<and>
   animation_iter_load_dejong ops \<lparr>model = [k0\<lparr>model_duration := 5\<rparr>, k1\<lparr>model_duration := 5\<rparr>]\<rparr>
       \<lparr>valid = True, keyframe = Some 0, absolute_time = 0, time_after_keyframe = 2.5\<rparr> dejong
     = Inr (de_jong_interpolate_linear ops dejong
              (spline_solve_and_eval ops (model_spline k0) 0.5)
              (de_jong_load_string ops (de_jong_new ops) (model_params k0),
               de_jong_load_string ops (de_jong_new ops) (model_params k1)))"
  by (simp add: animation_iter_seek_def seek_eval frame_eval)

text \<open>
  \<^bold>\<open>C1\<close> (as the code has it). On an animation of one keyframe of duration 3.0, from
  an iterator at the beginning, calls of \<^verbatim>\<open>animation_iter_read_frame\<close> with the frame
  rate 2 return \<open>TRUE\<close> five times and \<open>FALSE\<close> the sixth time: the sixth call steps
  from 2.5 to 3.0, the end of the keyframe, where the iterator is no longer valid. The
  first call fills both states of the frame, with the linear alphas 0 and 1/6; the sixth
  fills the first state only and leaves the iterator invalid.
\<close>

theorem read_frame_five_frames:
  "map_sum id (\<lambda>(rs, iter', frame'). (rs, iter'))
     (read_frames 6 ops \<lparr>model = [k\<lparr>model_duration := 3\<rparr>]\<rparr>
        (animation_iter_get_first \<lparr>model = [k\<lparr>model_duration := 3\<rparr>]\<rparr> iter) frame 2)
   = Inr ([True, True, True, True, True, False],
          \<lparr>valid = False, keyframe = None, absolute_time = 0, time_after_keyframe = 0\<rparr>) \<and>
   animation_iter_read_frame ops \<lparr>model = [k\<lparr>model_duration := 3\<rparr>]\<rparr>
        (animation_iter_get_first \<lparr>model = [k\<lparr>model_duration := 3\<rparr>]\<rparr> iter) frame 2
   = Inr (True,
          \<lparr>valid = True, keyframe = Some 0, absolute_time = 0, time_after_keyframe = 1 / 2\<rparr>,
          \<lparr>pair_a = de_jong_interpolate_linear ops (pair_a frame)
                      (spline_solve_and_eval ops (model_spline k) 0)
                      (de_jong_load_string ops (de_jong_new ops) (model_params k),
                       de_jong_load_string ops (de_jong_new ops) (model_params k)),
           pair_b = de_jong_interpolate_linear ops (pair_b frame)
                      (spline_solve_and_eval ops (model_spline k) (1 / 6))
                      (de_jong_load_string ops (de_jong_new ops) (model_params k),
                       de_jong_load_string ops (de_jong_new ops) (model_params k))\<rparr>) \<and>
   animation_iter_read_frame ops \<lparr>model = [k\<lparr>model_duration := 3\<rparr>]\<rparr>
        \<lparr>valid = True, keyframe = Some 0, absolute_time = 0, time_after_keyframe = 5 / 2\<rparr> frame 2
   = Inr (False,
          \<lparr>valid = False, keyframe = None, absolute_time = 0, time_after_keyframe = 0\<rparr>,
          frame\<lparr>pair_a := de_jong_interpolate_linear ops (pair_a frame)
                      (spline_solve_and_eval ops (model_spline k) (5 / 6))
                      (de_jong_load_string ops (de_jong_new ops) (model_params k),
                       de_jong_load_string ops (de_jong_new ops) (model_params k))\<rparr>)"
  by (simp add: seek_eval frame_eval eval_nat_numeral)

text \<open>The claim of six successful calls fails on the example animation: the results
  of seven calls are five times \<open>TRUE\<close> and then \<open>FALSE\<close> twice.\<close>

theorem read_frame_sixth_call_fails:
  "map_sum id fst
     (read_frames 7 example_dejong_ops (example_animation [3])
        (animation_iter_get_first (example_animation [3])
           \<lparr>valid = False, keyframe = None, absolute_time = 0, time_after_keyframe = 0\<rparr>)
        \<lparr>pair_a = 0, pair_b = 0\<rparr> 2)
   = Inr [True, True, True, True, True, False, False] \<and>
   map_sum id fst
     (read_frames 7 example_dejong_ops (example_animation [3])
        (animation_iter_get_first (example_animation [3])
           \<lparr>valid = False, keyframe = None, absolute_time = 0, time_after_keyframe = 0\<rparr>)
        \<lparr>pair_a = 0, pair_b = 0\<rparr> 2)
   \<noteq> Inr [True, True, True, True, True, True, False]"
  by (simp add: seek_eval frame_eval eval_nat_numeral example_animation_def example_dejong_ops_def)

text \<open>
  \<^bold>\<open>C9.\<close> \<^verbatim>\<open>animation_iter_read_frame\<close> is not atomic at the end of the
  animation: when the iterator is valid on entry and invalid after the step of
  \<open>1 / frame_rate\<close>, the call returns \<open>FALSE\<close> with the start state written to the
  first state of the frame, and with the iterator as the seek has left it, which is no
  longer the iterator of before the call.
\<close>

theorem read_frame_not_atomic:
  assumes "valid iter"
    and "animation_iter_load_dejong ops self iter (pair_a frame) = Inr a"
    and "frame_rate \<noteq> 0"
    and "animation_iter_seek_relative self iter (1 / frame_rate) = Inr iter'"
    and "\<not> valid iter'"
  shows "animation_iter_read_frame ops self iter frame frame_rate =
           Inr (False, iter', frame\<lparr>pair_a := a\<rparr>) \<and> iter' \<noteq> iter"
  using assms by (auto simp: animation_iter_read_frame_def fdiv_def)

theorem read_frame_not_atomic_witness:
  "animation_iter_read_frame example_dejong_ops (example_animation [3])
     \<lparr>valid = True, keyframe = Some 0, absolute_time = 0, time_after_keyframe = 2.5\<rparr>
     \<lparr>pair_a = 0, pair_b = 0\<rparr> 2
   = Inr (False,
          \<lparr>valid = False, keyframe = None, absolute_time = 0, time_after_keyframe = 0\<rparr>,
          \<lparr>pair_a = 3, pair_b = 0\<rparr>)"
proof -
  let ?it = "\<lparr>valid = True, keyframe = Some 0, absolute_time = 0, time_after_keyframe = 2.5\<rparr>"
  have h1: "valid ?it" by simp
  have h2: "animation_iter_load_dejong example_dejong_ops (example_animation [3]) ?it
              (pair_a \<lparr>pair_a = 0, pair_b = 0\<rparr>) = Inr 3"
    by (simp add: frame_eval seek_eval example_animation_def example_dejong_ops_def)
  have h3: "(2::real) \<noteq> 0" by simp
  have h4: "animation_iter_seek_relative (example_animation [3]) ?it (1 / 2) =
      Inr \<lparr>valid = False, keyframe = None, absolute_time = 0, time_after_keyframe = 0\<rparr>"
    by (simp add: seek_eval example_animation_def)
  have h5: "\<not> valid \<lparr>valid = False, keyframe = None, absolute_time = 0, time_after_keyframe = 0\<rparr>"
    by simp
  show ?thesis
    using read_frame_not_atomic[OF h1 h2 h3 h4 h5] by simp
qed

subsection \<open>Seeking forward and back\<close>

text \<open>Where the loop ends with a valid iterator, the iterator is on a row and its
  \<open>time_after_keyframe\<close> is at least 0 and less than the duration of that row. From a
  \<open>time_after_keyframe\<close> that is at least 0 the loop never resets, so it only moves
  forward in the store.\<close>

lemma seek_loop_result_stays:
  "seek_loop self it = Inr it' \<Longrightarrow> seek_iteration self it' = Done (Inr it')"
proof (induction self it rule: seek_loop.induct)
  case (1 self it)
  show ?case
  proof (cases "seek_iteration self it")
    case (Again it2)
    then have "seek_loop self it2 = Inr it'"
      using 1(2) by (simp add: seek_loop.simps[of self it])
    then show ?thesis using 1(1)[OF Again] by simp
  next
    case (Done r)
    then have r: "r = Inr it'" using 1(2) by (simp add: seek_loop.simps[of self it])
    have "it' = it"
      using Done r
      by (auto simp: seek_iteration_def Let_def split: if_splits option.splits prod.splits)
    then show ?thesis using Done r by simp
  qed
qed

lemma seek_loop_result_row:
  assumes "seek_loop self it = Inr it'" and "valid it'"
  shows "\<exists>k. keyframe it' = Some k \<and> k < length (model self) \<and>
           0 \<le> time_after_keyframe it' \<and>
           time_after_keyframe it' < model_duration (model self ! k)"
  using seek_loop_result_stays[OF assms(1)] assms(2)
  by (auto simp: seek_iteration_def Let_def gtk_tree_model_get_def
      split: if_splits option.splits prod.splits)

lemma seek_loop_moves_on:
  assumes "seek_loop self it = Inr it'" and "valid it'"
    and "0 \<le> time_after_keyframe it"
    and "valid it \<longrightarrow> (\<exists>i\<ge>j. keyframe it = Some i)"
  shows "\<exists>i\<ge>j. keyframe it' = Some i"
  using assms
proof (induction self it rule: seek_loop.induct)
  case (1 self it)
  show ?case
  proof (cases "seek_iteration self it")
    case (Done r)
    then have r: "r = Inr it'" using 1(2) by (simp add: seek_loop.simps[of self it])
    have "it' = it"
      using Done r
      by (auto simp: seek_iteration_def Let_def split: if_splits option.splits prod.splits)
    then show ?thesis using 1(3,5) by simp
  next
    case (Again it2)
    have l: "seek_loop self it2 = Inr it'"
      using Again 1(2) by (simp add: seek_loop.simps[of self it])
    have v: "valid it" using Again by (auto simp: seek_iteration_def split: if_splits)
    then obtain i where i: "j \<le> i" "keyframe it = Some i" using 1(5) by auto
    have t2: "0 \<le> time_after_keyframe it2" and k2: "valid it2 \<longrightarrow> (\<exists>i\<ge>j. keyframe it2 = Some i)"
      using Again v i 1(4)
      by (auto simp: seek_iteration_def Let_def gtk_tree_model_get_def gtk_tree_model_iter_next_def
            gdouble_sub_nonneg
          split: if_splits option.splits)
    show ?thesis using 1(1)[OF Again l 1(3) t2 k2] .
  qed
qed

text \<open>
  \<^bold>\<open>C3\<close> (as the code has it). Let the first keyframe have a positive duration and
  let \<open>d \<ge> 0\<close> be a double. If the seek by \<open>d\<close> from the beginning leaves the
  iterator valid, and either still on keyframe 0 or with a \<open>time_after_keyframe\<close> less
  than \<open>d\<close>, then the seek by \<open>- d\<close> after it leaves the iterator valid on keyframe 0
  with \<open>time_after_keyframe = 0\<close>.
\<close>

theorem seek_forward_backward:
  assumes first: "0 < model_duration (hd (model self))"
    and d0: "0 \<le> d"
    and dd: "round_gdouble d = d"
    and fwd: "animation_iter_seek_relative self (animation_iter_get_first self iter) d = Inr it1"
    and v1: "valid it1"
    and near: "keyframe it1 = Some 0 \<or> time_after_keyframe it1 < d"
  shows "animation_iter_seek_relative self it1 (- d) =
           Inr \<lparr>valid = True, keyframe = Some 0, absolute_time = 0, time_after_keyframe = 0\<rparr>"
proof -
  let ?m = "model self"
  let ?start = "\<lparr>valid = True, keyframe = Some 0, absolute_time = 0, time_after_keyframe = 0\<rparr>"
  define it0 where "it0 = (animation_iter_get_first self iter)\<lparr>time_after_keyframe := d\<rparr>"
  have l0: "seek_loop self it0 = Inr it1"
    using fwd dd
    by (simp add: animation_iter_seek_relative_def it0_def animation_iter_get_first_def
          gdouble_add_def split: prod.splits)
  from seek_loop_result_row[OF l0 v1] obtain k where k: "keyframe it1 = Some k"
    "k < length ?m" "0 \<le> time_after_keyframe it1"
    "time_after_keyframe it1 < model_duration (?m ! k)"
    by auto
  have ne: "?m \<noteq> []" using k(2) by auto
  have it0: "it0 = ?start\<lparr>time_after_keyframe := d\<rparr>"
    using ne by (simp add: it0_def animation_iter_get_first_def gtk_tree_model_get_iter_first_def)
  have hd0: "model_duration (?m ! 0) = model_duration (hd ?m)" using ne by (simp add: hd_conv_nth)
  have at_start: "seek_loop self ?start = Inr ?start"
    using ne first hd0
    by (simp add: seek_loop.simps[of self ?start] seek_iteration_def gtk_tree_model_get_def Let_def)
  define it2 where "it2 = it1\<lparr>time_after_keyframe := gdouble_add (time_after_keyframe it1) (- d)\<rparr>"
  have bwd: "seek_loop self it2 = Inr ?start"
  proof (cases "time_after_keyframe it1 < d")
    case True
    then have neg: "time_after_keyframe it2 < 0"
      by (simp add: it2_def gdouble_add_def round_gdouble_neg)
    then have "seek_iteration self it2 = Again (animation_iter_get_first self it2)"
      using v1 k by (simp add: seek_iteration_def gtk_tree_model_get_def Let_def it2_def)
    moreover have "animation_iter_get_first self it2 = ?start"
      using ne by (simp add: animation_iter_get_first_def gtk_tree_model_get_iter_first_def)
    ultimately show ?thesis using at_start by (simp add: seek_loop.simps[of self it2])
  next
    case False
    then have k0: "keyframe it1 = Some 0" using near by simp
    have "it1 = it0"
    proof (cases "seek_iteration self it0")
      case (Done r)
      then have "r = Inr it1" using l0 by (simp add: seek_loop.simps[of self it0])
      then show ?thesis using Done
        by (auto simp: seek_iteration_def Let_def split: if_splits option.splits prod.splits)
    next
      case (Again it')
      have l: "seek_loop self it' = Inr it1"
        using Again l0 by (simp add: seek_loop.simps[of self it0])
      have "0 \<le> time_after_keyframe it'" and "valid it' \<longrightarrow> (\<exists>i\<ge>1. keyframe it' = Some i)"
        using Again d0
        by (auto simp: it0 seek_iteration_def Let_def gtk_tree_model_get_def
              gtk_tree_model_iter_next_def gdouble_sub_nonneg animation_iter_get_first_def
              gtk_tree_model_get_iter_first_def
            split: if_splits option.splits)
      from seek_loop_moves_on[OF l v1 this] k0 show ?thesis by simp
    qed
    then have "it2 = ?start"
      by (simp add: it2_def it0 gdouble_add_def round_gdouble_zero)
    then show ?thesis using at_start by simp
  qed
  show ?thesis
    using bwd by (simp add: animation_iter_seek_relative_def it2_def)
qed

theorem seek_forward_backward_witness:
  "animation_iter_seek_relative (example_animation [5, 3])
     (animation_iter_get_first (example_animation [5, 3])
        \<lparr>valid = False, keyframe = None, absolute_time = 0, time_after_keyframe = 0\<rparr>) 6
   = Inr \<lparr>valid = True, keyframe = Some 1, absolute_time = 0, time_after_keyframe = 1\<rparr> \<and>
   animation_iter_seek_relative (example_animation [5, 3])
     \<lparr>valid = True, keyframe = Some 1, absolute_time = 0, time_after_keyframe = 1\<rparr> (- 6)
   = Inr \<lparr>valid = True, keyframe = Some 0, absolute_time = 0, time_after_keyframe = 0\<rparr>"
proof -
  let ?it = "\<lparr>valid = False, keyframe = None, absolute_time = 0, time_after_keyframe = 0\<rparr>"
  let ?it1 = "\<lparr>valid = True, keyframe = Some 1, absolute_time = 0, time_after_keyframe = 1\<rparr>"
  have h1: "0 < model_duration (hd (model (example_animation [5, 3])))"
    by (simp add: example_animation_def)
  have h2: "(0::real) \<le> 6" by simp
  have h3: "round_gdouble 6 = 6" by (simp add: round_gdouble_values)
  have h4: "animation_iter_seek_relative (example_animation [5, 3])
     (animation_iter_get_first (example_animation [5, 3]) ?it) 6 = Inr ?it1"
    by (simp add: seek_eval example_animation_def)
  have h5: "valid ?it1" by simp
  have h6: "keyframe ?it1 = Some 0 \<or> time_after_keyframe ?it1 < 6" by simp
  from seek_forward_backward[OF h1 h2 h3 h4 h5 h6] h4
  show ?thesis by simp
qed

text \<open>The claim for every animation and every \<open>d \<ge> 0\<close> fails in three ways.
  With one keyframe of duration 5 and \<open>d = 5\<close> the seek forward leaves the iterator
  invalid, and the seek back leaves it invalid with \<open>time_after_keyframe = - 5\<close>. With
  the durations 0, 1 and 5 and \<open>d = 2\<close> the reset is followed by a skip of the first
  keyframe, and the iterator ends on keyframe 1. With the durations 1 and \<open>10^18\<close> and
  \<open>d = 10^17\<close> the subtraction of the first duration is lost in the rounding: the
  iterator is on keyframe 1 with \<open>time_after_keyframe = d\<close>, the seek back makes that 0,
  and the iterator stays on keyframe 1.\<close>

theorem seek_forward_backward_counterexample:
  "animation_iter_seek_relative (example_animation [5])
     (animation_iter_get_first (example_animation [5])
        \<lparr>valid = False, keyframe = None, absolute_time = 0, time_after_keyframe = 0\<rparr>) 5
   = Inr \<lparr>valid = False, keyframe = None, absolute_time = 0, time_after_keyframe = 0\<rparr> \<and>
   animation_iter_seek_relative (example_animation [5])
     \<lparr>valid = False, keyframe = None, absolute_time = 0, time_after_keyframe = 0\<rparr> (- 5)
   = Inr \<lparr>valid = False, keyframe = None, absolute_time = 0, time_after_keyframe = - 5\<rparr> \<and>
   animation_iter_seek_relative (example_animation [0, 1, 5])
     (animation_iter_get_first (example_animation [0, 1, 5])
        \<lparr>valid = False, keyframe = None, absolute_time = 0, time_after_keyframe = 0\<rparr>) 2
   = Inr \<lparr>valid = True, keyframe = Some 2, absolute_time = 0, time_after_keyframe = 1\<rparr> \<and>
   animation_iter_seek_relative (example_animation [0, 1, 5])
     \<lparr>valid = True, keyframe = Some 2, absolute_time = 0, time_after_keyframe = 1\<rparr> (- 2)
   = Inr \<lparr>valid = True, keyframe = Some 1, absolute_time = 0, time_after_keyframe = 0\<rparr> \<and>
   animation_iter_seek_relative (example_animation [1, 1000000000000000000])
     (animation_iter_get_first (example_animation [1, 1000000000000000000])
        \<lparr>valid = False, keyframe = None, absolute_time = 0, time_after_keyframe = 0\<rparr>)
     100000000000000000
   = Inr \<lparr>valid = True, keyframe = Some 1, absolute_time = 0,
          time_after_keyframe = 100000000000000000\<rparr> \<and>
   animation_iter_seek_relative (example_animation [1, 1000000000000000000])
     \<lparr>valid = True, keyframe = Some 1, absolute_time = 0,
      time_after_keyframe = 100000000000000000\<rparr> (- 100000000000000000)
   = Inr \<lparr>valid = True, keyframe = Some 1, absolute_time = 0, time_after_keyframe = 0\<rparr>"
  by (simp add: seek_eval example_animation_def)

end
